theory Spec2Isabelle
  imports Complex_Main
begin

section \<open>Numbers, vectors and matrices\<close>

text \<open>
  The cameras of \<^verbatim>\<open>arcade/camera.py\<close> compute with Python floats, with the vectors
  \<^verbatim>\<open>Vec2\<close>, \<^verbatim>\<open>Vec3\<close> and the matrix \<^verbatim>\<open>Mat4\<close> of the numeric library
  \<^verbatim>\<open>pyglet.math\<close>. Numbers are modelled as exact reals: rounding, overflow and
  not-a-number values are outside the model. Integer fields (the viewport) are \<open>int\<close>.
  A Python exception is a value of \<open>error\<close>; a method that mutates \<open>self\<close> returns an
  \<open>outcome\<close> that carries the object as it is when the method returns or raises.
\<close>

datatype error = ZeroDivisionError | NotImplementedError | TypeError

datatype 's outcome = Returns 's | Raises error 's

fun final :: "'s outcome \<Rightarrow> 's" where
  "final (Returns s) = s"
| "final (Raises e s) = s"

fun returns :: "'s outcome \<Rightarrow> bool" where
  "returns (Returns s) = True"
| "returns (Raises e s) = False"

fun then_call :: "'s outcome \<Rightarrow> ('s \<Rightarrow> 's outcome) \<Rightarrow> 's outcome" where
  "then_call (Returns s) f = f s"
| "then_call (Raises e s) f = Raises e s"

text \<open>Python's true division \<^verbatim>\<open>a / b\<close> on floats raises on a zero divisor.\<close>

definition truediv :: "real \<Rightarrow> real \<Rightarrow> error + real" where
  "truediv a b = (if b = 0 then Inl ZeroDivisionError else Inr (a / b))"

type_synonym Vec2 = "real \<times> real"
type_synonym Vec3 = "real \<times> real \<times> real"

text \<open>
  Modelled from the spec: the vector operations of the external numeric library
  (\<^verbatim>\<open>Vec2.__add__\<close>, \<^verbatim>\<open>__sub__\<close>, \<^verbatim>\<open>__mul__\<close>, \<^verbatim>\<open>lerp\<close>), which is not part of the
  sources. Addition, subtraction and multiplication act per component; \<open>lerp\<close> is
  the linear interpolation \<open>a + alpha * (b - a)\<close> per component.
\<close>

definition vadd :: "Vec2 \<Rightarrow> Vec2 \<Rightarrow> Vec2" where
  "vadd a b = (fst a + fst b, snd a + snd b)"

text \<open>Modelled from the spec: \<^verbatim>\<open>Vec2.__sub__\<close> of the external library, per component.\<close>

definition vsub :: "Vec2 \<Rightarrow> Vec2 \<Rightarrow> Vec2" where
  "vsub a b = (fst a - fst b, snd a - snd b)"

text \<open>Modelled from the spec: \<^verbatim>\<open>Vec2.__mul__\<close> of the external library, per component.\<close>

definition vmul :: "Vec2 \<Rightarrow> Vec2 \<Rightarrow> Vec2" where
  "vmul a b = (fst a * fst b, snd a * snd b)"

text \<open>
  Modelled from the spec: \<^verbatim>\<open>Vec2.lerp\<close> of the external library, the linear interpolation
  from \<open>a\<close> to \<open>b\<close> by the factor \<open>alpha\<close>.
\<close>

definition lerp :: "Vec2 \<Rightarrow> Vec2 \<Rightarrow> real \<Rightarrow> Vec2" where
  "lerp a b alpha = (fst a + alpha * (fst b - fst a), snd a + alpha * (snd b - snd a))"

text \<open>
  Modelled from the spec: \<^verbatim>\<open>arcade.get_distance\<close>, which is not part of the sources; the
  spec calls its results \<open>|offset|\<close> and \<open>|velocity|\<close>, the Euclidean distance.
\<close>

definition get_distance :: "real \<Rightarrow> real \<Rightarrow> real \<Rightarrow> real \<Rightarrow> real" where
  "get_distance x1 y1 x2 y2 = sqrt ((x1 - x2) * (x1 - x2) + (y1 - y2) * (y1 - y2))"

text \<open>
  Python's \<^verbatim>\<open>math.atan2(y, x)\<close> and \<^verbatim>\<open>math.radians\<close>, over the reals.
\<close>

definition atan2 :: "real \<Rightarrow> real \<Rightarrow> real" where
  "atan2 y x =
     (if 0 < x then arctan (y / x)
      else if x < 0 then (if 0 \<le> y then arctan (y / x) + pi else arctan (y / x) - pi)
      else if 0 < y then pi / 2
      else if y < 0 then - (pi / 2)
      else 0)"

definition radians :: "real \<Rightarrow> real" where
  "radians d = d * pi / 180"

datatype Mat4 =
  Mat4 real real real real  real real real real  real real real real  real real real real

text \<open>
  Modelled from the spec: the 4x4 matrix operations of the external numeric library
  (identity, translation, scale, rotation about an axis, orthographic projection,
  product and inverse), which is not part of the sources. A matrix is its sixteen
  entries in the library's order, the translation in entries 12 to 14. Matrices act on
  points from the left to the right: in \<open>a @ b\<close> the transform \<open>a\<close> acts first. This is
  the reading under which the spec's rotation \<open>translate(-anchor) \<cdot> rotateZ \<cdot>
  translate(anchor)\<close> keeps the anchor motionless, and under which the view translation,
  which the cameras scale into normalised device units, acts after the projection in
  \<open>projection @ view\<close>.
\<close>

text \<open>Modelled from the spec: \<^verbatim>\<open>Mat4()\<close> of the external library, the identity matrix.\<close>

definition identity :: Mat4 where
  "identity = Mat4 1 0 0 0  0 1 0 0  0 0 1 0  0 0 0 1"

text \<open>Modelled from the spec: \<^verbatim>\<open>Mat4.from_translation\<close> of the external library.\<close>

fun from_translation :: "Vec3 \<Rightarrow> Mat4" where
  "from_translation (x, y, z) = Mat4 1 0 0 0  0 1 0 0  0 0 1 0  x y z 1"

text \<open>
  Modelled from the spec: \<^verbatim>\<open>Mat4.scale\<close> of the external library, which multiplies the
  diagonal entries 0, 5 and 10 by the vector's components.
\<close>

fun Mat4_scale :: "Mat4 \<Rightarrow> Vec3 \<Rightarrow> Mat4" where
  "Mat4_scale (Mat4 m0 m1 m2 m3  m4 m5 m6 m7  m8 m9 m10 m11  m12 m13 m14 m15) (x, y, z) =
     Mat4 (m0 * x) m1 m2 m3  m4 (m5 * y) m6 m7  m8 m9 (m10 * z) m11  m12 m13 m14 m15"

text \<open>
  Modelled from the spec: \<^verbatim>\<open>Mat4.from_rotation\<close> of the external library, the rotation
  by an angle in radians about a unit axis; the cameras only use the axis \<open>(0, 0, 1)\<close>.
\<close>

fun from_rotation :: "real \<Rightarrow> Vec3 \<Rightarrow> Mat4" where
  "from_rotation angle (x, y, z) =
     (let c = cos angle; s = sin angle; t = 1 - c
      in Mat4 (c + t * x * x) (t * x * y + s * z) (t * x * z - s * y) 0
              (t * y * x - s * z) (c + t * y * y) (t * y * z + s * x) 0
              (t * z * x + s * y) (t * z * y - s * x) (c + t * z * z) 0
              0 0 0 1)"

text \<open>
  Modelled from the spec: \<^verbatim>\<open>Mat4.orthogonal_projection\<close> of the external library. Its
  divisions by the width, the height and the depth raise on zero.
\<close>

definition orthogonal_projection ::
  "real \<Rightarrow> real \<Rightarrow> real \<Rightarrow> real \<Rightarrow> real \<Rightarrow> real \<Rightarrow> error + Mat4" where
  "orthogonal_projection left right bottom top' z_near z_far =
     (let width = right - left; height = top' - bottom; depth = z_far - z_near
      in if width = 0 \<or> height = 0 \<or> depth = 0 then Inl ZeroDivisionError
         else Inr (Mat4 (2 / width) 0 0 0
                        0 (2 / height) 0 0
                        0 0 (2 / - depth) 0
                        (- (right + left) / width) (- (top' + bottom) / height)
                          (- (z_far + z_near) / depth) 1))"

text \<open>
  Modelled from the spec: the matrix product \<^verbatim>\<open>a @ b\<close> of the external library, the
  transform that applies \<open>a\<close> first and \<open>b\<close> second.
\<close>

fun matmul :: "Mat4 \<Rightarrow> Mat4 \<Rightarrow> Mat4" where
  "matmul (Mat4 a0 a1 a2 a3  a4 a5 a6 a7  a8 a9 a10 a11  a12 a13 a14 a15)
          (Mat4 b0 b1 b2 b3  b4 b5 b6 b7  b8 b9 b10 b11  b12 b13 b14 b15) =
     Mat4 (a0 * b0 + a1 * b4 + a2 * b8 + a3 * b12)
          (a0 * b1 + a1 * b5 + a2 * b9 + a3 * b13)
          (a0 * b2 + a1 * b6 + a2 * b10 + a3 * b14)
          (a0 * b3 + a1 * b7 + a2 * b11 + a3 * b15)
          (a4 * b0 + a5 * b4 + a6 * b8 + a7 * b12)
          (a4 * b1 + a5 * b5 + a6 * b9 + a7 * b13)
          (a4 * b2 + a5 * b6 + a6 * b10 + a7 * b14)
          (a4 * b3 + a5 * b7 + a6 * b11 + a7 * b15)
          (a8 * b0 + a9 * b4 + a10 * b8 + a11 * b12)
          (a8 * b1 + a9 * b5 + a10 * b9 + a11 * b13)
          (a8 * b2 + a9 * b6 + a10 * b10 + a11 * b14)
          (a8 * b3 + a9 * b7 + a10 * b11 + a11 * b15)
          (a12 * b0 + a13 * b4 + a14 * b8 + a15 * b12)
          (a12 * b1 + a13 * b5 + a14 * b9 + a15 * b13)
          (a12 * b2 + a13 * b6 + a14 * b10 + a15 * b14)
          (a12 * b3 + a13 * b7 + a14 * b11 + a15 * b15)"



text \<open>
  Modelled from the spec: the matrix inverse \<^verbatim>\<open>~m\<close> of the external library, by
  cofactors; a singular matrix is returned as it is.
\<close>

primrec invert :: "Mat4 \<Rightarrow> Mat4" where
  "invert (Mat4 m0 m1 m2 m3  m4 m5 m6 m7  m8 m9 m10 m11  m12 m13 m14 m15) =
     (let ca = m10 * m15 - m11 * m14; cb = m9 * m15 - m11 * m13; cc = m9 * m14 - m10 * m13;
          cd = m8 * m15 - m11 * m12; ce = m8 * m14 - m10 * m12; cf = m8 * m13 - m9 * m12;
          cg = m6 * m15 - m7 * m14; ch = m5 * m15 - m7 * m13; ci = m5 * m14 - m6 * m13;
          cj = m6 * m11 - m7 * m10; ck = m5 * m11 - m7 * m9; cl = m5 * m10 - m6 * m9;
          cm = m4 * m15 - m7 * m12; cn = m4 * m14 - m6 * m12; co = m4 * m11 - m7 * m8;
          cp = m4 * m10 - m6 * m8; cq = m4 * m13 - m5 * m12; cr = m4 * m9 - m5 * m8;
          det = m0 * (m5 * ca - m6 * cb + m7 * cc) - m1 * (m4 * ca - m6 * cd + m7 * ce)
              + m2 * (m4 * cb - m5 * cd + m7 * cf) - m3 * (m4 * cc - m5 * ce + m6 * cf)
      in if det = 0 then Mat4 m0 m1 m2 m3  m4 m5 m6 m7  m8 m9 m10 m11  m12 m13 m14 m15
         else
           (let pdet = 1 / det; ndet = - pdet
            in Mat4 (pdet * (m5 * ca - m6 * cb + m7 * cc))
                    (ndet * (m1 * ca - m2 * cb + m3 * cc))
                    (pdet * (m1 * cg - m2 * ch + m3 * ci))
                    (ndet * (m1 * cj - m2 * ck + m3 * cl))
                    (ndet * (m4 * ca - m6 * cd + m7 * ce))
                    (pdet * (m0 * ca - m2 * cd + m3 * ce))
                    (ndet * (m0 * cg - m2 * cm + m3 * cn))
                    (pdet * (m0 * cj - m2 * co + m3 * cp))
                    (pdet * (m4 * cb - m5 * cd + m7 * cf))
                    (ndet * (m0 * cb - m1 * cd + m3 * cf))
                    (pdet * (m0 * ch - m1 * cm + m3 * cq))
                    (ndet * (m0 * ck - m1 * co + m3 * cr))
                    (ndet * (m4 * cc - m5 * ce + m6 * cf))
                    (pdet * (m0 * cc - m1 * ce + m2 * cf))
                    (ndet * (m0 * ci - m1 * cn + m2 * cq))
                    (pdet * (m0 * cl - m1 * cp + m2 * cr))))"

text \<open>
  The window and its rendering context, the render target of the cameras: the window
  size, the camera last activated and the three values a camera publishes.
\<close>

datatype camera_class = BaseCamera | Camera | AdvanceCamera

record window =
  width :: int
  height :: int
  current_camera :: "camera_class option"
  ctx_viewport :: "int \<times> int \<times> int \<times> int"
  ctx_projection_2d_matrix :: "Mat4 option"
  ctx_view_matrix_2d :: Mat4

section \<open>BaseCamera\<close>

text \<open>
  The fields of \<^verbatim>\<open>BaseCamera\<close>; a leading underscore of a field name is dropped. The
  three camera classes share field names, so a field is written with its record's name.
\<close>

record base_camera =
  viewport :: "int \<times> int \<times> int \<times> int"
  projection :: "real \<times> real \<times> real \<times> real"
  projection_matrix :: Mat4
  view_matrix :: Mat4
  combined_matrix :: Mat4
  position :: Vec2
  goal_position :: Vec2
  move_speed :: real
  moving :: bool

definition BaseCamera_viewport_width :: "base_camera \<Rightarrow> int" where
  "BaseCamera_viewport_width s = (case base_camera.viewport s of (l, b, w, h) \<Rightarrow> w)"

definition BaseCamera_viewport_height :: "base_camera \<Rightarrow> int" where
  "BaseCamera_viewport_height s = (case base_camera.viewport s of (l, b, w, h) \<Rightarrow> h)"

definition BaseCamera_set_combined_matrix :: "base_camera \<Rightarrow> base_camera" where
  "BaseCamera_set_combined_matrix s =
     s\<lparr>base_camera.combined_matrix :=
         matmul (base_camera.projection_matrix s) (base_camera.view_matrix s)\<rparr>"

text \<open>The value \<^verbatim>\<open>_set_projection_matrix\<close> assigns to the projection matrix.\<close>

definition BaseCamera_projection_of :: "base_camera \<Rightarrow> error + Mat4" where
  "BaseCamera_projection_of s =
     (case base_camera.projection s of (l, r, b, t) \<Rightarrow> orthogonal_projection l r b t (- 1) 1)"

definition BaseCamera_set_projection_matrix :: "bool \<Rightarrow> base_camera \<Rightarrow> base_camera outcome" where
  "BaseCamera_set_projection_matrix update_combined_matrix s =
     (case BaseCamera_projection_of s of
        Inl e \<Rightarrow> Raises e s
      | Inr m \<Rightarrow>
          (let s1 = s\<lparr>base_camera.projection_matrix := m\<rparr>
           in if update_combined_matrix then Returns (BaseCamera_set_combined_matrix s1)
              else Returns s1))"

text \<open>
  The value \<^verbatim>\<open>_set_view_matrix\<close> assigns to the view matrix: the two divisions of the
  position by half the viewport extent, then the inverse of the translation.
\<close>

definition BaseCamera_view_of :: "base_camera \<Rightarrow> error + Mat4" where
  "BaseCamera_view_of s =
     (case truediv (fst (base_camera.position s)) (real_of_int (BaseCamera_viewport_width s) / 2) of
        Inl e \<Rightarrow> Inl e
      | Inr x \<Rightarrow>
          (case truediv (snd (base_camera.position s))
                  (real_of_int (BaseCamera_viewport_height s) / 2) of
             Inl e \<Rightarrow> Inl e
           | Inr y \<Rightarrow> Inr (invert (from_translation (x, y, 0)))))"

definition BaseCamera_set_view_matrix :: "base_camera \<Rightarrow> base_camera outcome" where
  "BaseCamera_set_view_matrix s =
     (case BaseCamera_view_of s of
        Inl e \<Rightarrow> Raises e s
      | Inr m \<Rightarrow> Returns (BaseCamera_set_combined_matrix (s\<lparr>base_camera.view_matrix := m\<rparr>)))"

text \<open>
  The constructor: \<open>BaseCamera_new\<close> is the object with the fields as the constructor
  assigns them, before it computes the matrices. \<^verbatim>\<open>viewport or (0, 0, width, height)\<close>
  takes the window's size when the argument is \<^verbatim>\<open>None\<close>. A constructor that raises
  leaves no object.
\<close>

definition BaseCamera_new ::
  "window \<Rightarrow> (int \<times> int \<times> int \<times> int) option \<Rightarrow> (real \<times> real \<times> real \<times> real) option
     \<Rightarrow> base_camera" where
  "BaseCamera_new w viewport_arg projection_arg =
     \<lparr>base_camera.viewport =
        (case viewport_arg of Some v \<Rightarrow> v | None \<Rightarrow> (0, 0, width w, height w)),
      base_camera.projection =
        (case projection_arg of Some p \<Rightarrow> p
         | None \<Rightarrow> (0, real_of_int (width w), 0, real_of_int (height w))),
      base_camera.projection_matrix = identity,
      base_camera.view_matrix = identity,
      base_camera.combined_matrix = identity,
      base_camera.position = (0, 0),
      base_camera.goal_position = (0, 0),
      base_camera.move_speed = 1,
      base_camera.moving = False\<rparr>"

definition BaseCamera_init ::
  "window \<Rightarrow> (int \<times> int \<times> int \<times> int) option \<Rightarrow> (real \<times> real \<times> real \<times> real) option
     \<Rightarrow> base_camera outcome" where
  "BaseCamera_init w viewport_arg projection_arg =
     then_call (BaseCamera_set_projection_matrix False (BaseCamera_new w viewport_arg projection_arg))
       BaseCamera_set_view_matrix"

definition BaseCamera_set_viewport ::
  "int \<times> int \<times> int \<times> int \<Rightarrow> base_camera \<Rightarrow> base_camera outcome" where
  "BaseCamera_set_viewport v s = Returns (s\<lparr>base_camera.viewport := v\<rparr>)"

definition BaseCamera_set_projection ::
  "real \<times> real \<times> real \<times> real \<Rightarrow> base_camera \<Rightarrow> base_camera outcome" where
  "BaseCamera_set_projection new_projection s =
     BaseCamera_set_projection_matrix True (s\<lparr>base_camera.projection := new_projection\<rparr>)"

definition BaseCamera_move_to :: "Vec2 \<Rightarrow> real \<Rightarrow> base_camera \<Rightarrow> base_camera outcome" where
  "BaseCamera_move_to vector speed s =
     Returns (s\<lparr>base_camera.goal_position := (fst vector, snd vector),
                base_camera.move_speed := speed,
                base_camera.moving := True\<rparr>)"

definition BaseCamera_move :: "Vec2 \<Rightarrow> base_camera \<Rightarrow> base_camera outcome" where
  "BaseCamera_move vector s = BaseCamera_move_to vector 1 s"

definition BaseCamera_update :: "base_camera \<Rightarrow> base_camera outcome" where
  "BaseCamera_update s =
     (if base_camera.moving s then
        (let s1 = s\<lparr>base_camera.position :=
                       lerp (base_camera.position s) (base_camera.goal_position s)
                         (base_camera.move_speed s)\<rparr>;
             s2 = (if base_camera.position s1 = base_camera.goal_position s1
                   then s1\<lparr>base_camera.moving := False\<rparr> else s1)
         in BaseCamera_set_view_matrix s2)
      else Returns s)"

definition BaseCamera_use :: "base_camera \<Rightarrow> window \<Rightarrow> (base_camera \<times> window) outcome" where
  "BaseCamera_use s w =
     (let w1 = w\<lparr>current_camera := Some BaseCamera\<rparr>
      in case BaseCamera_update s of
           Raises e s1 \<Rightarrow> Raises e (s1, w1)
         | Returns s1 \<Rightarrow>
             Returns (s1, w1\<lparr>ctx_viewport := base_camera.viewport s1,
                              ctx_projection_2d_matrix := Some (base_camera.combined_matrix s1)\<rparr>))"

section \<open>Camera\<close>

text \<open>
  The fields of \<^verbatim>\<open>Camera\<close>. The view and the combined matrix are \<^verbatim>\<open>None\<close> until the
  first \<^verbatim>\<open>update()\<close>; the projection matrix is \<^verbatim>\<open>None\<close> only inside the constructor.
\<close>

record camera =
  position :: Vec2
  goal_position :: Vec2
  rotation :: real
  anchor :: "(real \<times> real) option"
  move_speed :: real
  projection_matrix :: "Mat4 option"
  view_matrix :: "Mat4 option"
  combined_matrix :: "Mat4 option"
  near :: real
  far :: real
  shake_velocity :: Vec2
  shake_offset :: Vec2
  shake_speed :: real
  shake_damping :: real
  scale :: real
  viewport_width :: int
  viewport_height :: int

text \<open>The value \<^verbatim>\<open>set_projection\<close> assigns to the projection matrix.\<close>

definition Camera_projection_of :: "camera \<Rightarrow> error + Mat4" where
  "Camera_projection_of s =
     orthogonal_projection 0 (camera.scale s * real_of_int (camera.viewport_width s))
       0 (camera.scale s * real_of_int (camera.viewport_height s))
       (camera.near s) (camera.far s)"

definition Camera_set_projection :: "camera \<Rightarrow> camera outcome" where
  "Camera_set_projection s =
     (case Camera_projection_of s of
        Inl e \<Rightarrow> Raises e s
      | Inr m \<Rightarrow> Returns (s\<lparr>camera.projection_matrix := Some m\<rparr>))"

definition Camera_new :: "window \<Rightarrow> int \<Rightarrow> int \<Rightarrow> camera" where
  "Camera_new w viewport_width_arg viewport_height_arg =
     \<lparr>camera.position = (0, 0),
      camera.goal_position = (0, 0),
      camera.rotation = 0,
      camera.anchor = None,
      camera.move_speed = 1,
      camera.projection_matrix = None,
      camera.view_matrix = None,
      camera.combined_matrix = None,
      camera.near = - 1,
      camera.far = 1,
      camera.shake_velocity = (0, 0),
      camera.shake_offset = (0, 0),
      camera.shake_speed = 0,
      camera.shake_damping = 0,
      camera.scale = 1,
      camera.viewport_width = (if viewport_width_arg \<noteq> 0 then viewport_width_arg else width w),
      camera.viewport_height =
        (if viewport_height_arg \<noteq> 0 then viewport_height_arg else height w)\<rparr>"

definition Camera_init :: "window \<Rightarrow> int \<Rightarrow> int \<Rightarrow> camera outcome" where
  "Camera_init w viewport_width_arg viewport_height_arg =
     Camera_set_projection (Camera_new w viewport_width_arg viewport_height_arg)"

definition Camera_set_rotation :: "real \<Rightarrow> camera \<Rightarrow> camera outcome" where
  "Camera_set_rotation v s = Returns (s\<lparr>camera.rotation := v\<rparr>)"


text \<open>
  \<^verbatim>\<open>Camera.update\<close>, first part: the movement and the shake, applied on every call.
\<close>

definition Camera_update_motion :: "camera \<Rightarrow> camera" where
  "Camera_update_motion s =
     (let s1 = s\<lparr>camera.position :=
                   lerp (camera.position s) (camera.goal_position s) (camera.move_speed s)\<rparr>;
          s2 = s1\<lparr>camera.shake_offset := vadd (camera.shake_offset s1) (camera.shake_velocity s1)\<rparr>;
          vx = fst (camera.shake_velocity s2);
          vy = snd (camera.shake_velocity s2);
          ox = fst (camera.shake_offset s2);
          oy = snd (camera.shake_offset s2);
          angle = atan2 ox oy;
          distance = get_distance 0 0 ox oy;
          velocity_mag = get_distance 0 0 vx vy;
          reverse_speed = min (camera.shake_speed s2) distance;
          opposite_angle = angle + pi;
          opposite_vector = (sin opposite_angle * reverse_speed, cos opposite_angle * reverse_speed);
          s3 = (if velocity_mag < camera.shake_speed s2 \<and> distance < camera.shake_speed s2
                then s2\<lparr>camera.shake_velocity := (0, 0), camera.shake_offset := (0, 0)\<rparr>
                else s2);
          s4 = s3\<lparr>camera.shake_velocity := vadd (camera.shake_velocity s3) opposite_vector\<rparr>
      in s4\<lparr>camera.shake_velocity :=
               vmul (camera.shake_velocity s4) (camera.shake_damping s4, camera.shake_damping s4)\<rparr>)"

text \<open>
  The value \<^verbatim>\<open>Camera.update\<close> assigns to the view matrix; its divisions raise when the
  viewport extent times the scale is zero.
\<close>

definition Camera_view_of :: "camera \<Rightarrow> error + Mat4" where
  "Camera_view_of s =
     (let result_position = vadd (camera.position s) (camera.shake_offset s)
      in case truediv (fst result_position)
                (real_of_int (camera.viewport_width s) * camera.scale s / 2) of
           Inl e \<Rightarrow> Inl e
         | Inr x \<Rightarrow>
             (case truediv (snd result_position)
                     (real_of_int (camera.viewport_height s) * camera.scale s / 2) of
                Inl e \<Rightarrow> Inl e
              | Inr y \<Rightarrow>
                  Inr (invert (matmul (from_translation (x, y, 0))
                         (Mat4_scale identity (camera.scale s, camera.scale s, 1))))))"

text \<open>
  \<^verbatim>\<open>Camera.update\<close>: the motion, then the view matrix and the combined matrix. The
  division raises after the position and the shake are stored.
\<close>

definition Camera_update :: "camera \<Rightarrow> camera outcome" where
  "Camera_update s =
     (let s5 = Camera_update_motion s
      in case Camera_view_of s5 of
           Inl e \<Rightarrow> Raises e s5
         | Inr m \<Rightarrow>
             (let s6 = s5\<lparr>camera.view_matrix := Some m\<rparr>
              in case camera.projection_matrix s6 of
                   Some p \<Rightarrow> Returns (s6\<lparr>camera.combined_matrix := Some (matmul p m)\<rparr>)
                 | None \<Rightarrow> Raises TypeError s6))"


definition Camera_shake :: "Vec2 \<Rightarrow> real \<Rightarrow> real \<Rightarrow> camera \<Rightarrow> camera outcome" where
  "Camera_shake velocity speed damping s =
     Returns (s\<lparr>camera.shake_velocity := vadd (camera.shake_velocity s) velocity,
                camera.shake_speed := speed,
                camera.shake_damping := damping\<rparr>)"

definition Camera_move_to :: "Vec2 \<Rightarrow> real \<Rightarrow> camera \<Rightarrow> camera outcome" where
  "Camera_move_to vector speed s =
     Returns (s\<lparr>camera.goal_position := (fst vector, snd vector), camera.move_speed := speed\<rparr>)"


definition Camera_zoom :: "real \<Rightarrow> camera \<Rightarrow> camera outcome" where
  "Camera_zoom change s = Raises NotImplementedError s"

text \<open>
  The rotation matrix both \<^verbatim>\<open>Camera.use\<close> and \<^verbatim>\<open>AdvanceCamera._set_rotation_matrix\<close>
  build from the rotation in degrees and the offset: \<^verbatim>\<open>translate_post @ rotate @
  translate_pre\<close>. \<open>Camera_rotation_of\<close> is the matrix \<^verbatim>\<open>Camera.use\<close> publishes, from the
  rotation, the anchor, the position and the viewport at the time of the call.
\<close>

definition rotation_about :: "real \<Rightarrow> Vec3 \<Rightarrow> Mat4" where
  "rotation_about degrees offset =
     (let rotate = from_rotation (radians degrees) (0, 0, 1);
          translate_pre = from_translation offset;
          translate_post =
            from_translation (case offset of (x, y, z) \<Rightarrow> (- x, - y, - z))
      in matmul (matmul translate_post rotate) translate_pre)"

definition Camera_rotation_of :: "camera \<Rightarrow> Mat4" where
  "Camera_rotation_of s =
     rotation_about (camera.rotation s)
       (case camera.anchor s of
          None \<Rightarrow>
            (fst (camera.position s) + real_of_int (camera.viewport_width s) / 2,
             snd (camera.position s) + real_of_int (camera.viewport_height s) / 2,
             0 + 0)
        | Some a \<Rightarrow> (fst a, snd a, 0))"

definition Camera_use :: "camera \<Rightarrow> window \<Rightarrow> (camera \<times> window) outcome" where
  "Camera_use s w =
     (let w1 = w\<lparr>current_camera := Some Camera\<rparr>
      in case Camera_update s of
           Raises e s1 \<Rightarrow> Raises e (s1, w1)
         | Returns s1 \<Rightarrow>
             Returns (s1, w1\<lparr>ctx_viewport := (0, 0, camera.viewport_width s1, camera.viewport_height s1),
                              ctx_projection_2d_matrix := camera.combined_matrix s1,
                              ctx_view_matrix_2d := Camera_rotation_of s1\<rparr>))"

section \<open>AdvanceCamera\<close>

record advance_camera =
  position :: Vec2
  goal_position :: Vec2
  move_speed :: real
  moving :: bool
  zoom :: real
  rotation :: real
  anchor :: "(real \<times> real) option"
  near :: real
  far :: real
  shake_velocity :: Vec2
  shake_offset :: Vec2
  shake_speed :: real
  shake_damping :: real
  shaking :: bool
  viewport :: "int \<times> int \<times> int \<times> int"
  projection :: "real \<times> real \<times> real \<times> real"
  projection_matrix :: Mat4
  view_matrix :: Mat4
  combined_matrix :: Mat4
  rotation_matrix :: Mat4

definition AdvanceCamera_viewport_width :: "advance_camera \<Rightarrow> int" where
  "AdvanceCamera_viewport_width s = (case advance_camera.viewport s of (l, b, w, h) \<Rightarrow> w)"

definition AdvanceCamera_viewport_height :: "advance_camera \<Rightarrow> int" where
  "AdvanceCamera_viewport_height s = (case advance_camera.viewport s of (l, b, w, h) \<Rightarrow> h)"

definition AdvanceCamera_set_combined_matrix :: "advance_camera \<Rightarrow> advance_camera" where
  "AdvanceCamera_set_combined_matrix s =
     s\<lparr>advance_camera.combined_matrix :=
         matmul (advance_camera.projection_matrix s) (advance_camera.view_matrix s)\<rparr>"

text \<open>The value \<^verbatim>\<open>_set_projection_matrix\<close> assigns to the projection matrix.\<close>

definition AdvanceCamera_projection_of :: "advance_camera \<Rightarrow> error + Mat4" where
  "AdvanceCamera_projection_of s =
     (case advance_camera.projection s of
        (l, r, b, t) \<Rightarrow>
          (let r1 = (if advance_camera.zoom s \<noteq> 1 then r * advance_camera.zoom s else r);
               t1 = (if advance_camera.zoom s \<noteq> 1 then t * advance_camera.zoom s else t)
           in orthogonal_projection l r1 b t1 (advance_camera.near s) (advance_camera.far s)))"

definition AdvanceCamera_set_projection_matrix ::
  "bool \<Rightarrow> advance_camera \<Rightarrow> advance_camera outcome" where
  "AdvanceCamera_set_projection_matrix update_combined_matrix s =
     (case AdvanceCamera_projection_of s of
        Inl e \<Rightarrow> Raises e s
      | Inr m \<Rightarrow>
          (let s1 = s\<lparr>advance_camera.projection_matrix := m\<rparr>
           in if update_combined_matrix then Returns (AdvanceCamera_set_combined_matrix s1)
              else Returns s1))"

text \<open>The value \<^verbatim>\<open>_set_view_matrix\<close> assigns to the view matrix.\<close>

definition AdvanceCamera_view_of :: "advance_camera \<Rightarrow> error + Mat4" where
  "AdvanceCamera_view_of s =
     (let result_position = vadd (advance_camera.position s) (advance_camera.shake_offset s)
      in case truediv (fst result_position)
                (real_of_int (AdvanceCamera_viewport_width s) * advance_camera.zoom s / 2) of
           Inl e \<Rightarrow> Inl e
         | Inr x \<Rightarrow>
             (case truediv (snd result_position)
                     (real_of_int (AdvanceCamera_viewport_height s) * advance_camera.zoom s / 2) of
                Inl e \<Rightarrow> Inl e
              | Inr y \<Rightarrow>
                  Inr (invert (matmul (from_translation (x, y, 0))
                         (Mat4_scale identity (advance_camera.zoom s, advance_camera.zoom s, 1))))))"

definition AdvanceCamera_set_view_matrix :: "advance_camera \<Rightarrow> advance_camera outcome" where
  "AdvanceCamera_set_view_matrix s =
     (case AdvanceCamera_view_of s of
        Inl e \<Rightarrow> Raises e s
      | Inr m \<Rightarrow> Returns (AdvanceCamera_set_combined_matrix (s\<lparr>advance_camera.view_matrix := m\<rparr>)))"

text \<open>The value \<^verbatim>\<open>_set_rotation_matrix\<close> assigns to the rotation matrix.\<close>

definition AdvanceCamera_rotation_of :: "advance_camera \<Rightarrow> Mat4" where
  "AdvanceCamera_rotation_of s =
     rotation_about (advance_camera.rotation s)
       (case advance_camera.anchor s of
          None \<Rightarrow>
            (fst (advance_camera.position s) + real_of_int (AdvanceCamera_viewport_width s) / 2,
             snd (advance_camera.position s) + real_of_int (AdvanceCamera_viewport_height s) / 2,
             0 + 0)
        | Some a \<Rightarrow> (fst a, snd a, 0))"

definition AdvanceCamera_set_rotation_matrix :: "advance_camera \<Rightarrow> advance_camera outcome" where
  "AdvanceCamera_set_rotation_matrix s =
     Returns (s\<lparr>advance_camera.rotation_matrix := AdvanceCamera_rotation_of s\<rparr>)"

definition AdvanceCamera_new ::
  "window \<Rightarrow> (int \<times> int \<times> int \<times> int) option \<Rightarrow> (real \<times> real \<times> real \<times> real) option
     \<Rightarrow> real \<Rightarrow> real \<Rightarrow> (real \<times> real) option \<Rightarrow> advance_camera" where
  "AdvanceCamera_new w viewport_arg projection_arg zoom_arg rotation_arg anchor_arg =
     \<lparr>advance_camera.position = (0, 0),
      advance_camera.goal_position = (0, 0),
      advance_camera.move_speed = 1,
      advance_camera.moving = False,
      advance_camera.zoom = zoom_arg,
      advance_camera.rotation = rotation_arg,
      advance_camera.anchor = anchor_arg,
      advance_camera.near = - 1,
      advance_camera.far = 1,
      advance_camera.shake_velocity = (0, 0),
      advance_camera.shake_offset = (0, 0),
      advance_camera.shake_speed = 0,
      advance_camera.shake_damping = 0,
      advance_camera.shaking = False,
      advance_camera.viewport =
        (case viewport_arg of Some v \<Rightarrow> v | None \<Rightarrow> (0, 0, width w, height w)),
      advance_camera.projection =
        (case projection_arg of Some p \<Rightarrow> p
         | None \<Rightarrow> (0, real_of_int (width w), 0, real_of_int (height w))),
      advance_camera.projection_matrix = identity,
      advance_camera.view_matrix = identity,
      advance_camera.combined_matrix = identity,
      advance_camera.rotation_matrix = identity\<rparr>"

definition AdvanceCamera_init ::
  "window \<Rightarrow> (int \<times> int \<times> int \<times> int) option \<Rightarrow> (real \<times> real \<times> real \<times> real) option
     \<Rightarrow> real \<Rightarrow> real \<Rightarrow> (real \<times> real) option \<Rightarrow> advance_camera outcome" where
  "AdvanceCamera_init w viewport_arg projection_arg zoom_arg rotation_arg anchor_arg =
     then_call (then_call
       (AdvanceCamera_set_projection_matrix False
          (AdvanceCamera_new w viewport_arg projection_arg zoom_arg rotation_arg anchor_arg))
       AdvanceCamera_set_view_matrix)
       AdvanceCamera_set_rotation_matrix"

definition AdvanceCamera_set_viewport ::
  "window \<Rightarrow> (int \<times> int \<times> int \<times> int) option \<Rightarrow> advance_camera \<Rightarrow> advance_camera outcome" where
  "AdvanceCamera_set_viewport w viewport_arg s =
     then_call
       (AdvanceCamera_set_view_matrix
          (s\<lparr>advance_camera.viewport :=
               (case viewport_arg of Some v \<Rightarrow> v | None \<Rightarrow> (0, 0, width w, height w))\<rparr>))
       AdvanceCamera_set_rotation_matrix"

definition AdvanceCamera_set_projection ::
  "window \<Rightarrow> (real \<times> real \<times> real \<times> real) option \<Rightarrow> advance_camera \<Rightarrow> advance_camera outcome" where
  "AdvanceCamera_set_projection w new_projection s =
     AdvanceCamera_set_projection_matrix True
       (s\<lparr>advance_camera.projection :=
            (case new_projection of Some p \<Rightarrow> p
             | None \<Rightarrow> (0, real_of_int (width w), 0, real_of_int (height w)))\<rparr>)"

definition AdvanceCamera_set_zoom :: "real \<Rightarrow> advance_camera \<Rightarrow> advance_camera outcome" where
  "AdvanceCamera_set_zoom z s =
     then_call (AdvanceCamera_set_projection_matrix False (s\<lparr>advance_camera.zoom := z\<rparr>))
       AdvanceCamera_set_view_matrix"

definition AdvanceCamera_set_near :: "real \<Rightarrow> advance_camera \<Rightarrow> advance_camera outcome" where
  "AdvanceCamera_set_near n s =
     AdvanceCamera_set_projection_matrix True (s\<lparr>advance_camera.near := n\<rparr>)"

definition AdvanceCamera_set_far :: "real \<Rightarrow> advance_camera \<Rightarrow> advance_camera outcome" where
  "AdvanceCamera_set_far f s =
     AdvanceCamera_set_projection_matrix True (s\<lparr>advance_camera.far := f\<rparr>)"

definition AdvanceCamera_set_rotation :: "real \<Rightarrow> advance_camera \<Rightarrow> advance_camera outcome" where
  "AdvanceCamera_set_rotation v s =
     AdvanceCamera_set_rotation_matrix (s\<lparr>advance_camera.rotation := v\<rparr>)"

definition AdvanceCamera_set_anchor ::
  "(real \<times> real) option \<Rightarrow> advance_camera \<Rightarrow> advance_camera outcome" where
  "AdvanceCamera_set_anchor a s =
     AdvanceCamera_set_rotation_matrix
       (s\<lparr>advance_camera.anchor := (case a of None \<Rightarrow> None | Some p \<Rightarrow> Some (fst p, snd p))\<rparr>)"

text \<open>
  The movement of \<^verbatim>\<open>AdvanceCamera.update\<close>: the body of \<^verbatim>\<open>if self.moving\<close>.
\<close>

definition AdvanceCamera_update_moving :: "advance_camera \<Rightarrow> advance_camera" where
  "AdvanceCamera_update_moving s =
     (if advance_camera.moving s then
        (let s1 = s\<lparr>advance_camera.position :=
                       lerp (advance_camera.position s) (advance_camera.goal_position s)
                         (advance_camera.move_speed s)\<rparr>
         in if advance_camera.position s1 = advance_camera.goal_position s1
            then s1\<lparr>advance_camera.moving := False\<rparr> else s1)
      else s)"

text \<open>
  The shake of \<^verbatim>\<open>AdvanceCamera.update\<close>: the body of \<^verbatim>\<open>if self.shaking\<close>. The new
  velocity is added and damped after the test that zeroes the shake, whatever the test
  decided.
\<close>

definition AdvanceCamera_update_shaking :: "advance_camera \<Rightarrow> advance_camera" where
  "AdvanceCamera_update_shaking s =
     (if advance_camera.shaking s then
        (let s2 = s\<lparr>advance_camera.shake_offset :=
                       vadd (advance_camera.shake_offset s) (advance_camera.shake_velocity s)\<rparr>;
             vx = fst (advance_camera.shake_velocity s2);
             vy = snd (advance_camera.shake_velocity s2);
             ox = fst (advance_camera.shake_offset s2);
             oy = snd (advance_camera.shake_offset s2);
             angle = atan2 ox oy;
             distance = get_distance 0 0 ox oy;
             velocity_mag = get_distance 0 0 vx vy;
             reverse_speed = min (advance_camera.shake_speed s2) distance;
             opposite_angle = angle + pi;
             opposite_vector =
               (sin opposite_angle * reverse_speed, cos opposite_angle * reverse_speed);
             s3 = (if velocity_mag < advance_camera.shake_speed s2
                      \<and> distance < advance_camera.shake_speed s2
                   then s2\<lparr>advance_camera.shake_velocity := (0, 0),
                           advance_camera.shake_offset := (0, 0),
                           advance_camera.shaking := False\<rparr>
                   else s2);
             s4 = s3\<lparr>advance_camera.shake_velocity :=
                        vadd (advance_camera.shake_velocity s3) opposite_vector\<rparr>
         in s4\<lparr>advance_camera.shake_velocity :=
                  vmul (advance_camera.shake_velocity s4)
                    (advance_camera.shake_damping s4, advance_camera.shake_damping s4)\<rparr>)
      else s)"

definition AdvanceCamera_update :: "advance_camera \<Rightarrow> advance_camera outcome" where
  "AdvanceCamera_update s =
     (let s1 = AdvanceCamera_update_shaking (AdvanceCamera_update_moving s)
      in if advance_camera.moving s1 \<or> advance_camera.shaking s1
         then AdvanceCamera_set_view_matrix s1
         else Returns s1)"

definition AdvanceCamera_resize :: "window \<Rightarrow> int \<Rightarrow> int \<Rightarrow> advance_camera \<Rightarrow> advance_camera outcome" where
  "AdvanceCamera_resize w viewport_width_arg viewport_height_arg s =
     (case advance_camera.viewport s of
        (l, b, w0, h0) \<Rightarrow>
          AdvanceCamera_set_viewport w (Some (l, b, viewport_width_arg, viewport_height_arg)) s)"

definition AdvanceCamera_shake ::
  "Vec2 \<Rightarrow> real \<Rightarrow> real \<Rightarrow> advance_camera \<Rightarrow> advance_camera outcome" where
  "AdvanceCamera_shake velocity speed damping s =
     Returns (s\<lparr>advance_camera.shake_velocity := vadd (advance_camera.shake_velocity s) velocity,
                advance_camera.shake_speed := speed,
                advance_camera.shake_damping := damping,
                advance_camera.shaking := True\<rparr>)"

definition AdvanceCamera_move_to :: "Vec2 \<Rightarrow> real \<Rightarrow> advance_camera \<Rightarrow> advance_camera outcome" where
  "AdvanceCamera_move_to vector speed s =
     Returns (s\<lparr>advance_camera.goal_position := (fst vector, snd vector),
                advance_camera.move_speed := speed,
                advance_camera.moving := True\<rparr>)"

definition AdvanceCamera_move :: "Vec2 \<Rightarrow> advance_camera \<Rightarrow> advance_camera outcome" where
  "AdvanceCamera_move vector s = AdvanceCamera_move_to vector 1 s"

definition AdvanceCamera_center :: "Vec2 \<Rightarrow> real \<Rightarrow> advance_camera \<Rightarrow> advance_camera outcome" where
  "AdvanceCamera_center vector speed s =
     (let position = advance_camera.position s;
          center = (real_of_int (AdvanceCamera_viewport_width s) / 2,
                    real_of_int (AdvanceCamera_viewport_height s) / 2);
          target = vsub (vadd vector position) center
      in AdvanceCamera_move_to target speed s)"

definition AdvanceCamera_get_map_coordinates :: "Vec2 \<Rightarrow> advance_camera \<Rightarrow> Vec2" where
  "AdvanceCamera_get_map_coordinates camera_vector s =
     vadd (advance_camera.position s) camera_vector"

definition AdvanceCamera_use ::
  "advance_camera \<Rightarrow> window \<Rightarrow> (advance_camera \<times> window) outcome" where
  "AdvanceCamera_use s w =
     (let w1 = w\<lparr>current_camera := Some AdvanceCamera\<rparr>
      in case AdvanceCamera_update s of
           Raises e s1 \<Rightarrow> Raises e (s1, w1)
         | Returns s1 \<Rightarrow>
             Returns (s1, w1\<lparr>ctx_viewport := advance_camera.viewport s1,
                              ctx_projection_2d_matrix := Some (advance_camera.combined_matrix s1),
                              ctx_view_matrix_2d := advance_camera.rotation_matrix s1\<rparr>))"

section \<open>Cached matrices and the fields they are derived from\<close>

text \<open>
  A cached matrix is up to date when it is the value its helper would assign from the
  current fields; the combined matrix is consistent when it is the product of the cached
  projection and view matrices. A camera is settled-consistent when it is moving or at
  its goal.
\<close>

definition BaseCamera_projection_ok :: "base_camera \<Rightarrow> bool" where
  "BaseCamera_projection_ok s = (BaseCamera_projection_of s = Inr (base_camera.projection_matrix s))"

definition BaseCamera_view_ok :: "base_camera \<Rightarrow> bool" where
  "BaseCamera_view_ok s = (BaseCamera_view_of s = Inr (base_camera.view_matrix s))"

definition BaseCamera_combined_ok :: "base_camera \<Rightarrow> bool" where
  "BaseCamera_combined_ok s =
     (base_camera.combined_matrix s =
        matmul (base_camera.projection_matrix s) (base_camera.view_matrix s))"

definition BaseCamera_matrices_ok :: "base_camera \<Rightarrow> bool" where
  "BaseCamera_matrices_ok s =
     (BaseCamera_projection_ok s \<and> BaseCamera_view_ok s \<and> BaseCamera_combined_ok s)"

definition BaseCamera_settled_ok :: "base_camera \<Rightarrow> bool" where
  "BaseCamera_settled_ok s =
     (\<not> base_camera.moving s \<longrightarrow> base_camera.position s = base_camera.goal_position s)"








definition AdvanceCamera_combined_ok :: "advance_camera \<Rightarrow> bool" where
  "AdvanceCamera_combined_ok s =
     (advance_camera.combined_matrix s =
        matmul (advance_camera.projection_matrix s) (advance_camera.view_matrix s))"


definition AdvanceCamera_settled_ok :: "advance_camera \<Rightarrow> bool" where
  "AdvanceCamera_settled_ok s =
     (\<not> advance_camera.moving s \<longrightarrow> advance_camera.position s = advance_camera.goal_position s)"

section \<open>Reachable states and example states\<close>

text \<open>
  The states of a camera object: the constructor returned it, and every later call of a
  public method or property setter returned. A call that raises ends the run.
\<close>

inductive BaseCamera_reachable :: "base_camera \<Rightarrow> bool" where
  init: "BaseCamera_init w v p = Returns s \<Longrightarrow> BaseCamera_reachable s"
| set_viewport:
    "BaseCamera_reachable s \<Longrightarrow> BaseCamera_set_viewport v s = Returns s' \<Longrightarrow> BaseCamera_reachable s'"
| set_projection:
    "BaseCamera_reachable s \<Longrightarrow> BaseCamera_set_projection p s = Returns s' \<Longrightarrow> BaseCamera_reachable s'"
| move_to:
    "BaseCamera_reachable s \<Longrightarrow> BaseCamera_move_to vector speed s = Returns s' \<Longrightarrow> BaseCamera_reachable s'"
| move:
    "BaseCamera_reachable s \<Longrightarrow> BaseCamera_move vector s = Returns s' \<Longrightarrow> BaseCamera_reachable s'"
| update:
    "BaseCamera_reachable s \<Longrightarrow> BaseCamera_update s = Returns s' \<Longrightarrow> BaseCamera_reachable s'"
| use:
    "BaseCamera_reachable s \<Longrightarrow> BaseCamera_use s w = Returns (s', w') \<Longrightarrow> BaseCamera_reachable s'"

inductive AdvanceCamera_reachable :: "advance_camera \<Rightarrow> bool" where
  init: "AdvanceCamera_init w v p z r a = Returns s \<Longrightarrow> AdvanceCamera_reachable s"
| set_viewport:
    "AdvanceCamera_reachable s \<Longrightarrow> AdvanceCamera_set_viewport w v s = Returns s'
       \<Longrightarrow> AdvanceCamera_reachable s'"
| set_projection:
    "AdvanceCamera_reachable s \<Longrightarrow> AdvanceCamera_set_projection w p s = Returns s'
       \<Longrightarrow> AdvanceCamera_reachable s'"
| set_zoom:
    "AdvanceCamera_reachable s \<Longrightarrow> AdvanceCamera_set_zoom z s = Returns s' \<Longrightarrow> AdvanceCamera_reachable s'"
| set_near:
    "AdvanceCamera_reachable s \<Longrightarrow> AdvanceCamera_set_near n s = Returns s' \<Longrightarrow> AdvanceCamera_reachable s'"
| set_far:
    "AdvanceCamera_reachable s \<Longrightarrow> AdvanceCamera_set_far f s = Returns s' \<Longrightarrow> AdvanceCamera_reachable s'"
| set_rotation:
    "AdvanceCamera_reachable s \<Longrightarrow> AdvanceCamera_set_rotation r s = Returns s'
       \<Longrightarrow> AdvanceCamera_reachable s'"
| set_anchor:
    "AdvanceCamera_reachable s \<Longrightarrow> AdvanceCamera_set_anchor a s = Returns s' \<Longrightarrow> AdvanceCamera_reachable s'"
| update:
    "AdvanceCamera_reachable s \<Longrightarrow> AdvanceCamera_update s = Returns s' \<Longrightarrow> AdvanceCamera_reachable s'"
| resize:
    "AdvanceCamera_reachable s \<Longrightarrow> AdvanceCamera_resize w vw vh s = Returns s'
       \<Longrightarrow> AdvanceCamera_reachable s'"
| shake:
    "AdvanceCamera_reachable s \<Longrightarrow> AdvanceCamera_shake velocity speed damping s = Returns s'
       \<Longrightarrow> AdvanceCamera_reachable s'"
| move_to:
    "AdvanceCamera_reachable s \<Longrightarrow> AdvanceCamera_move_to vector speed s = Returns s'
       \<Longrightarrow> AdvanceCamera_reachable s'"
| move:
    "AdvanceCamera_reachable s \<Longrightarrow> AdvanceCamera_move vector s = Returns s' \<Longrightarrow> AdvanceCamera_reachable s'"
| center:
    "AdvanceCamera_reachable s \<Longrightarrow> AdvanceCamera_center vector speed s = Returns s'
       \<Longrightarrow> AdvanceCamera_reachable s'"
| use:
    "AdvanceCamera_reachable s \<Longrightarrow> AdvanceCamera_use s w = Returns (s', w') \<Longrightarrow> AdvanceCamera_reachable s'"

text \<open>The state after \<open>n\<close> further calls of \<^verbatim>\<open>update()\<close>.\<close>

fun BaseCamera_updates :: "nat \<Rightarrow> base_camera \<Rightarrow> base_camera" where
  "BaseCamera_updates 0 s = s"
| "BaseCamera_updates (Suc n) s = BaseCamera_updates n (final (BaseCamera_update s))"

fun Camera_updates :: "nat \<Rightarrow> camera \<Rightarrow> camera" where
  "Camera_updates 0 s = s"
| "Camera_updates (Suc n) s = Camera_updates n (final (Camera_update s))"

fun AdvanceCamera_updates :: "nat \<Rightarrow> advance_camera \<Rightarrow> advance_camera" where
  "AdvanceCamera_updates 0 s = s"
| "AdvanceCamera_updates (Suc n) s = AdvanceCamera_updates n (final (AdvanceCamera_update s))"

text \<open>A window of 800 by 600 pixels and cameras made with the default arguments in it.\<close>

definition window0 :: window where
  "window0 = \<lparr>width = 800, height = 600, current_camera = None, ctx_viewport = (0, 0, 800, 600),
     ctx_projection_2d_matrix = None, ctx_view_matrix_2d = identity\<rparr>"

definition base_default :: base_camera where
  "base_default = final (BaseCamera_init window0 None None)"

definition cam_default :: camera where
  "cam_default = final (Camera_init window0 0 0)"

definition adv_default :: advance_camera where
  "adv_default = final (AdvanceCamera_init window0 None None 1 0 None)"

text \<open>The default camera after \<^verbatim>\<open>move((100, 50))\<close> and one \<^verbatim>\<open>update()\<close>.\<close>

definition adv_moved :: advance_camera where
  "adv_moved = final (AdvanceCamera_update (final (AdvanceCamera_move (100, 50) adv_default)))"

text \<open>The default camera after \<^verbatim>\<open>shake((1, 0), 1.5, 0.9)\<close> and one \<^verbatim>\<open>update()\<close>.\<close>

definition adv_shaken :: advance_camera where
  "adv_shaken =
     final (AdvanceCamera_update (final (AdvanceCamera_shake (1, 0) (3 / 2) (9 / 10) adv_default)))"

text \<open>A camera made with \<^verbatim>\<open>rotation=180\<close>, then \<^verbatim>\<open>move((100, 0))\<close>.\<close>

definition adv_rotated :: advance_camera where
  "adv_rotated =
     final (AdvanceCamera_move (100, 0) (final (AdvanceCamera_init window0 None None 1 180 None)))"


text \<open>The default Basic camera after \<^verbatim>\<open>move((100, 60))\<close> and one \<^verbatim>\<open>update()\<close>.\<close>

definition base_moved :: base_camera where
  "base_moved = final (BaseCamera_update (final (BaseCamera_move (100, 60) base_default)))"

section \<open>Calls that return, and small facts of the arithmetic\<close>



lemma then_call_Returns:
  assumes "then_call x f = Returns s'"
  obtains s1 where "x = Returns s1" and "f s1 = Returns s'"
  using assms by (cases x) simp_all

lemma returns_cases:
  assumes "returns x"
  obtains s where "x = Returns s"
  using assms by (cases x) simp_all

lemma lerp_zero: "lerp a b 0 = a"
  by (simp add: lerp_def)

lemma orthogonal_projection_error:
  "orthogonal_projection l r b t n f = Inl e \<Longrightarrow> e = ZeroDivisionError"
  by (simp add: orthogonal_projection_def Let_def split: if_splits)

lemma truediv_error: "truediv a b = Inl e \<Longrightarrow> e = ZeroDivisionError"
  by (simp add: truediv_def split: if_splits)

lemma returns_final: "returns x \<Longrightarrow> x = Returns (final x)"
  by (cases x) simp_all

section \<open>Lemmas on BaseCamera\<close>

lemma BaseCamera_set_projection_matrix_Returns:
  assumes "BaseCamera_set_projection_matrix b s = Returns s'"
  obtains m where "BaseCamera_projection_of s = Inr m"
    and "s' = (if b then BaseCamera_set_combined_matrix (s\<lparr>base_camera.projection_matrix := m\<rparr>)
               else s\<lparr>base_camera.projection_matrix := m\<rparr>)"
  using assms
  by (cases "BaseCamera_projection_of s")
     (simp_all add: BaseCamera_set_projection_matrix_def Let_def split: if_splits)

lemma BaseCamera_set_view_matrix_Returns:
  assumes "BaseCamera_set_view_matrix s = Returns s'"
  obtains m where "BaseCamera_view_of s = Inr m"
    and "s' = BaseCamera_set_combined_matrix (s\<lparr>base_camera.view_matrix := m\<rparr>)"
  using assms
  by (cases "BaseCamera_view_of s") (simp_all add: BaseCamera_set_view_matrix_def)

lemma BaseCamera_set_view_matrix_ok:
  assumes "BaseCamera_set_view_matrix s = Returns s'"
  shows "BaseCamera_combined_ok s'"
    and "BaseCamera_settled_ok s' = BaseCamera_settled_ok s"
  using assms
  by (rule BaseCamera_set_view_matrix_Returns,
      simp add: BaseCamera_combined_ok_def BaseCamera_settled_ok_def
        BaseCamera_set_combined_matrix_def)+

lemma BaseCamera_set_projection_matrix_ok:
  assumes "BaseCamera_set_projection_matrix True s = Returns s'"
  shows "BaseCamera_combined_ok s'"
    and "BaseCamera_settled_ok s' = BaseCamera_settled_ok s"
  using assms
  by (rule BaseCamera_set_projection_matrix_Returns,
      simp add: BaseCamera_combined_ok_def BaseCamera_settled_ok_def
        BaseCamera_set_combined_matrix_def)+

lemma BaseCamera_set_projection_matrix_False_settled:
  assumes "BaseCamera_set_projection_matrix False s = Returns s'"
  shows "BaseCamera_settled_ok s' = BaseCamera_settled_ok s"
  using assms
  by (rule BaseCamera_set_projection_matrix_Returns) (simp add: BaseCamera_settled_ok_def)

text \<open>The movement of \<^verbatim>\<open>BaseCamera.update\<close> keeps a moving camera moving or puts it at its goal.\<close>

lemma BaseCamera_update_ok:
  assumes "BaseCamera_update s = Returns s'"
  shows "BaseCamera_combined_ok s \<Longrightarrow> BaseCamera_combined_ok s'"
    and "BaseCamera_settled_ok s'  \<or> \<not> BaseCamera_settled_ok s"
proof -
  show "BaseCamera_combined_ok s \<Longrightarrow> BaseCamera_combined_ok s'"
  proof (cases "base_camera.moving s")
    case True
    with assms obtain s2 where "BaseCamera_set_view_matrix s2 = Returns s'"
      by (simp add: BaseCamera_update_def Let_def)
    then show ?thesis by (rule BaseCamera_set_view_matrix_ok(1))
  next
    case False
    with assms have "s' = s" by (simp add: BaseCamera_update_def)
    then show "BaseCamera_combined_ok s \<Longrightarrow> BaseCamera_combined_ok s'" by simp
  qed
  show "BaseCamera_settled_ok s' \<or> \<not> BaseCamera_settled_ok s"
  proof (cases "base_camera.moving s")
    case True
    let ?s1 = "s\<lparr>base_camera.position :=
        lerp (base_camera.position s) (base_camera.goal_position s) (base_camera.move_speed s)\<rparr>"
    let ?s2 = "if base_camera.position ?s1 = base_camera.goal_position ?s1
               then ?s1\<lparr>base_camera.moving := False\<rparr> else ?s1"
    from True assms have "BaseCamera_set_view_matrix ?s2 = Returns s'"
      by (simp add: BaseCamera_update_def Let_def)
    then have "BaseCamera_settled_ok s' = BaseCamera_settled_ok ?s2"
      by (rule BaseCamera_set_view_matrix_ok(2))
    moreover from True have "BaseCamera_settled_ok ?s2"
      by (simp add: BaseCamera_settled_ok_def)
    ultimately show ?thesis by simp
  next
    case False
    with assms have "s' = s" by (simp add: BaseCamera_update_def)
    then show ?thesis by simp
  qed
qed

lemma BaseCamera_use_Returns:
  "BaseCamera_use s w = Returns (s', w') \<Longrightarrow>
     BaseCamera_update s = Returns s'
     \<and> w' = w\<lparr>current_camera := Some BaseCamera,
               ctx_viewport := base_camera.viewport s',
               ctx_projection_2d_matrix := Some (base_camera.combined_matrix s')\<rparr>"
  by (cases "BaseCamera_update s") (simp_all add: BaseCamera_use_def Let_def)

lemma BaseCamera_init_ok:
  assumes "BaseCamera_init w v p = Returns s"
  shows "BaseCamera_combined_ok s \<and> BaseCamera_settled_ok s"
proof -
  from assms [unfolded BaseCamera_init_def] obtain s1
    where proj: "BaseCamera_set_projection_matrix False (BaseCamera_new w v p) = Returns s1"
      and view: "BaseCamera_set_view_matrix s1 = Returns s"
    by (rule then_call_Returns)
  have "BaseCamera_settled_ok (BaseCamera_new w v p)"
    by (simp add: BaseCamera_settled_ok_def BaseCamera_new_def)
  with BaseCamera_set_projection_matrix_False_settled [OF proj]
  have "BaseCamera_settled_ok s1" by simp
  with BaseCamera_set_view_matrix_ok [OF view] show ?thesis by simp
qed

lemma BaseCamera_move_to_ok:
  assumes "BaseCamera_move_to vector speed s = Returns s'"
  shows "BaseCamera_combined_ok s' = BaseCamera_combined_ok s"
    and "BaseCamera_settled_ok s'"
proof -
  from assms have "s' = s\<lparr>base_camera.goal_position := (fst vector, snd vector),
                base_camera.move_speed := speed, base_camera.moving := True\<rparr>"
    by (simp add: BaseCamera_move_to_def)
  then show "BaseCamera_combined_ok s' = BaseCamera_combined_ok s"
    and "BaseCamera_settled_ok s'"
    by (simp_all add: BaseCamera_combined_ok_def BaseCamera_settled_ok_def)
qed

lemma BaseCamera_reachable_ok:
  "BaseCamera_reachable s \<Longrightarrow> BaseCamera_combined_ok s \<and> BaseCamera_settled_ok s"
proof (induction rule: BaseCamera_reachable.induct)
  case (init w v p s)
  then show ?case by (rule BaseCamera_init_ok)
next
  case (set_viewport s v s')
  then have "s' = s\<lparr>base_camera.viewport := v\<rparr>" by (simp add: BaseCamera_set_viewport_def)
  with set_viewport(3) show ?case
    by (simp add: BaseCamera_combined_ok_def BaseCamera_settled_ok_def)
next
  case (set_projection s p s')
  with BaseCamera_set_projection_matrix_ok
    [OF set_projection(2) [unfolded BaseCamera_set_projection_def]]
  show ?case by (simp add: BaseCamera_settled_ok_def)
next
  case (move_to s vector speed s')
  with BaseCamera_move_to_ok [OF move_to(2)] show ?case by simp
next
  case (move s vector s')
  with BaseCamera_move_to_ok [OF move(2) [unfolded BaseCamera_move_def]] show ?case by simp
next
  case (update s s')
  with BaseCamera_update_ok [OF update(2)] show ?case by blast
next
  case (use s w s' w')
  from use(2) have "BaseCamera_update s = Returns s'" by (simp add: BaseCamera_use_Returns)
  from BaseCamera_update_ok [OF this] use(3) show ?case by blast
qed

lemma BaseCamera_set_view_matrix_frame:
  "base_camera.position (final (BaseCamera_set_view_matrix s)) = base_camera.position s"
  "base_camera.goal_position (final (BaseCamera_set_view_matrix s)) = base_camera.goal_position s"
  "base_camera.move_speed (final (BaseCamera_set_view_matrix s)) = base_camera.move_speed s"
  "base_camera.moving (final (BaseCamera_set_view_matrix s)) = base_camera.moving s"
  by (cases "BaseCamera_view_of s";
      simp add: BaseCamera_set_view_matrix_def BaseCamera_set_combined_matrix_def)+

lemma BaseCamera_update_stuck:
  assumes "base_camera.moving s" and "base_camera.move_speed s = 0"
    and "base_camera.position s \<noteq> base_camera.goal_position s"
  shows "BaseCamera_update s = BaseCamera_set_view_matrix s"
  using assms by (simp add: BaseCamera_update_def lerp_zero Let_def)

lemma BaseCamera_updates_stuck:
  assumes "base_camera.moving s" and "base_camera.move_speed s = 0"
    and "base_camera.position s \<noteq> base_camera.goal_position s"
  shows "base_camera.position (BaseCamera_updates n s) = base_camera.position s
     \<and> base_camera.goal_position (BaseCamera_updates n s) = base_camera.goal_position s
     \<and> base_camera.move_speed (BaseCamera_updates n s) = 0
     \<and> base_camera.moving (BaseCamera_updates n s)"
  using assms
proof (induction n arbitrary: s)
  case 0
  then show ?case by simp
next
  case (Suc n)
  let ?s' = "final (BaseCamera_update s)"
  from Suc.prems have u: "BaseCamera_update s = BaseCamera_set_view_matrix s"
    by (rule BaseCamera_update_stuck)
  with Suc.prems have "base_camera.moving ?s'" and "base_camera.move_speed ?s' = 0"
    and "base_camera.position ?s' \<noteq> base_camera.goal_position ?s'"
    by (simp_all add: BaseCamera_set_view_matrix_frame)
  from Suc.IH [OF this] show ?case
    by (simp add: u BaseCamera_set_view_matrix_frame)
qed




section \<open>Lemmas on Camera\<close>

lemma Camera_update_motion_frame:
  "camera.anchor (Camera_update_motion c) = camera.anchor c"
  "camera.rotation (Camera_update_motion c) = camera.rotation c"
  "camera.viewport_width (Camera_update_motion c) = camera.viewport_width c"
  "camera.viewport_height (Camera_update_motion c) = camera.viewport_height c"
  "camera.scale (Camera_update_motion c) = camera.scale c"
  "camera.near (Camera_update_motion c) = camera.near c"
  "camera.far (Camera_update_motion c) = camera.far c"
  "camera.projection_matrix (Camera_update_motion c) = camera.projection_matrix c"
  "camera.goal_position (Camera_update_motion c) = camera.goal_position c"
  "camera.move_speed (Camera_update_motion c) = camera.move_speed c"
  "camera.position (Camera_update_motion c) =
     lerp (camera.position c) (camera.goal_position c) (camera.move_speed c)"
  by (simp_all add: Camera_update_motion_def Let_def)


lemma Camera_use_Returns:
  "Camera_update c = Returns c1 \<Longrightarrow>
     Camera_use c w =
       Returns (c1, w\<lparr>current_camera := Some Camera,
                       ctx_viewport := (0, 0, camera.viewport_width c1, camera.viewport_height c1),
                       ctx_projection_2d_matrix := camera.combined_matrix c1,
                       ctx_view_matrix_2d := Camera_rotation_of c1\<rparr>)"
  by (simp add: Camera_use_def Let_def)

lemma Camera_use_returns_iff: "returns (Camera_use c w) = returns (Camera_update c)"
  by (cases "Camera_update c") (simp_all add: Camera_use_def Let_def)


lemma Camera_update_final_frame:
  "camera.position (final (Camera_update c)) = camera.position (Camera_update_motion c)"
  "camera.goal_position (final (Camera_update c)) = camera.goal_position c"
  "camera.move_speed (final (Camera_update c)) = camera.move_speed c"
  by (simp_all add: Camera_update_def Let_def Camera_update_motion_frame
      split: sum.split option.split)

lemma Camera_updates_stuck:
  assumes "camera.move_speed c = 0"
  shows "camera.position (Camera_updates n c) = camera.position c
     \<and> camera.goal_position (Camera_updates n c) = camera.goal_position c
     \<and> camera.move_speed (Camera_updates n c) = 0"
  using assms
proof (induction n arbitrary: c)
  case 0
  then show ?case by simp
next
  case (Suc n)
  from Suc.prems have "camera.move_speed (final (Camera_update c)) = 0"
    by (simp add: Camera_update_final_frame)
  from Suc.IH [OF this] Suc.prems show ?case
    by (simp add: Camera_update_final_frame Camera_update_motion_frame lerp_zero)
qed





section \<open>Lemmas on AdvanceCamera\<close>

lemma AdvanceCamera_set_projection_matrix_Returns:
  assumes "AdvanceCamera_set_projection_matrix b s = Returns s'"
  obtains m where "AdvanceCamera_projection_of s = Inr m"
    and "s' = (if b then AdvanceCamera_set_combined_matrix (s\<lparr>advance_camera.projection_matrix := m\<rparr>)
               else s\<lparr>advance_camera.projection_matrix := m\<rparr>)"
  using assms
  by (cases "AdvanceCamera_projection_of s")
     (simp_all add: AdvanceCamera_set_projection_matrix_def Let_def split: if_splits)

lemma AdvanceCamera_set_view_matrix_Returns:
  assumes "AdvanceCamera_set_view_matrix s = Returns s'"
  obtains m where "AdvanceCamera_view_of s = Inr m"
    and "s' = AdvanceCamera_set_combined_matrix (s\<lparr>advance_camera.view_matrix := m\<rparr>)"
  using assms
  by (cases "AdvanceCamera_view_of s") (simp_all add: AdvanceCamera_set_view_matrix_def)

lemma AdvanceCamera_set_rotation_matrix_Returns:
  assumes "AdvanceCamera_set_rotation_matrix s = Returns s'"
  shows "s' = s\<lparr>advance_camera.rotation_matrix := AdvanceCamera_rotation_of s\<rparr>"
  using assms by (simp add: AdvanceCamera_set_rotation_matrix_def)

lemma AdvanceCamera_set_view_matrix_ok:
  assumes "AdvanceCamera_set_view_matrix s = Returns s'"
  shows "AdvanceCamera_combined_ok s'"
    and "AdvanceCamera_settled_ok s' = AdvanceCamera_settled_ok s"
  using assms
  by (rule AdvanceCamera_set_view_matrix_Returns,
      simp add: AdvanceCamera_combined_ok_def AdvanceCamera_settled_ok_def
        AdvanceCamera_set_combined_matrix_def)+

lemma AdvanceCamera_set_projection_matrix_ok:
  assumes "AdvanceCamera_set_projection_matrix True s = Returns s'"
  shows "AdvanceCamera_combined_ok s'"
    and "AdvanceCamera_settled_ok s' = AdvanceCamera_settled_ok s"
  using assms
  by (rule AdvanceCamera_set_projection_matrix_Returns,
      simp add: AdvanceCamera_combined_ok_def AdvanceCamera_settled_ok_def
        AdvanceCamera_set_combined_matrix_def)+

lemma AdvanceCamera_set_projection_matrix_False_settled:
  assumes "AdvanceCamera_set_projection_matrix False s = Returns s'"
  shows "AdvanceCamera_settled_ok s' = AdvanceCamera_settled_ok s"
  using assms
  by (rule AdvanceCamera_set_projection_matrix_Returns)
     (simp add: AdvanceCamera_settled_ok_def)

lemma AdvanceCamera_set_rotation_matrix_ok:
  assumes "AdvanceCamera_set_rotation_matrix s = Returns s'"
  shows "AdvanceCamera_combined_ok s' = AdvanceCamera_combined_ok s"
    and "AdvanceCamera_settled_ok s' = AdvanceCamera_settled_ok s"
  using AdvanceCamera_set_rotation_matrix_Returns [OF assms]
  by (simp_all add: AdvanceCamera_combined_ok_def AdvanceCamera_settled_ok_def)

lemma AdvanceCamera_update_moving_frame:
  "advance_camera.projection_matrix (AdvanceCamera_update_moving s) = advance_camera.projection_matrix s"
  "advance_camera.view_matrix (AdvanceCamera_update_moving s) = advance_camera.view_matrix s"
  "advance_camera.combined_matrix (AdvanceCamera_update_moving s) = advance_camera.combined_matrix s"
  "advance_camera.rotation_matrix (AdvanceCamera_update_moving s) = advance_camera.rotation_matrix s"
  "advance_camera.goal_position (AdvanceCamera_update_moving s) = advance_camera.goal_position s"
  "advance_camera.move_speed (AdvanceCamera_update_moving s) = advance_camera.move_speed s"
  "advance_camera.shaking (AdvanceCamera_update_moving s) = advance_camera.shaking s"
  by (simp_all add: AdvanceCamera_update_moving_def Let_def)

lemma AdvanceCamera_update_shaking_frame:
  "advance_camera.projection_matrix (AdvanceCamera_update_shaking s) = advance_camera.projection_matrix s"
  "advance_camera.view_matrix (AdvanceCamera_update_shaking s) = advance_camera.view_matrix s"
  "advance_camera.combined_matrix (AdvanceCamera_update_shaking s) = advance_camera.combined_matrix s"
  "advance_camera.rotation_matrix (AdvanceCamera_update_shaking s) = advance_camera.rotation_matrix s"
  "advance_camera.position (AdvanceCamera_update_shaking s) = advance_camera.position s"
  "advance_camera.goal_position (AdvanceCamera_update_shaking s) = advance_camera.goal_position s"
  "advance_camera.move_speed (AdvanceCamera_update_shaking s) = advance_camera.move_speed s"
  "advance_camera.moving (AdvanceCamera_update_shaking s) = advance_camera.moving s"
  by (simp_all add: AdvanceCamera_update_shaking_def Let_def)

lemma AdvanceCamera_update_moving_settled:
  "AdvanceCamera_settled_ok s \<Longrightarrow> AdvanceCamera_settled_ok (AdvanceCamera_update_moving s)"
  by (simp add: AdvanceCamera_settled_ok_def AdvanceCamera_update_moving_def Let_def)

lemma AdvanceCamera_update_ok:
  assumes "AdvanceCamera_update s = Returns s'"
  shows "AdvanceCamera_combined_ok s \<Longrightarrow> AdvanceCamera_combined_ok s'"
    and "AdvanceCamera_settled_ok s \<Longrightarrow> AdvanceCamera_settled_ok s'"
proof -
  let ?s1 = "AdvanceCamera_update_shaking (AdvanceCamera_update_moving s)"
  have c1: "AdvanceCamera_combined_ok ?s1 = AdvanceCamera_combined_ok s"
    by (simp add: AdvanceCamera_combined_ok_def AdvanceCamera_update_shaking_frame
        AdvanceCamera_update_moving_frame)
  have m1: "AdvanceCamera_settled_ok s \<Longrightarrow> AdvanceCamera_settled_ok ?s1"
    using AdvanceCamera_update_moving_settled [of s]
    by (simp add: AdvanceCamera_settled_ok_def AdvanceCamera_update_shaking_frame)
  show "AdvanceCamera_combined_ok s \<Longrightarrow> AdvanceCamera_combined_ok s'"
  proof (cases "advance_camera.moving ?s1 \<or> advance_camera.shaking ?s1")
    case True
    with assms have "AdvanceCamera_set_view_matrix ?s1 = Returns s'"
      by (simp add: AdvanceCamera_update_def Let_def)
    then show ?thesis by (rule AdvanceCamera_set_view_matrix_ok(1))
  next
    case False
    with assms have "s' = ?s1" by (simp add: AdvanceCamera_update_def Let_def)
    with c1 show "AdvanceCamera_combined_ok s \<Longrightarrow> AdvanceCamera_combined_ok s'" by simp
  qed
  show "AdvanceCamera_settled_ok s \<Longrightarrow> AdvanceCamera_settled_ok s'"
  proof (cases "advance_camera.moving ?s1 \<or> advance_camera.shaking ?s1")
    case True
    with assms have "AdvanceCamera_set_view_matrix ?s1 = Returns s'"
      by (simp add: AdvanceCamera_update_def Let_def)
    then have "AdvanceCamera_settled_ok s' = AdvanceCamera_settled_ok ?s1"
      by (rule AdvanceCamera_set_view_matrix_ok(2))
    with m1 show "AdvanceCamera_settled_ok s \<Longrightarrow> AdvanceCamera_settled_ok s'" by simp
  next
    case False
    with assms have "s' = ?s1" by (simp add: AdvanceCamera_update_def Let_def)
    with m1 show "AdvanceCamera_settled_ok s \<Longrightarrow> AdvanceCamera_settled_ok s'" by simp
  qed
qed

lemma AdvanceCamera_field_update_ok:
  "AdvanceCamera_combined_ok (s\<lparr>advance_camera.viewport := v\<rparr>) = AdvanceCamera_combined_ok s"
  "AdvanceCamera_settled_ok (s\<lparr>advance_camera.viewport := v\<rparr>) = AdvanceCamera_settled_ok s"
  "AdvanceCamera_combined_ok (s\<lparr>advance_camera.projection := p\<rparr>) = AdvanceCamera_combined_ok s"
  "AdvanceCamera_settled_ok (s\<lparr>advance_camera.projection := p\<rparr>) = AdvanceCamera_settled_ok s"
  "AdvanceCamera_combined_ok (s\<lparr>advance_camera.zoom := z\<rparr>) = AdvanceCamera_combined_ok s"
  "AdvanceCamera_settled_ok (s\<lparr>advance_camera.zoom := z\<rparr>) = AdvanceCamera_settled_ok s"
  "AdvanceCamera_combined_ok (s\<lparr>advance_camera.near := n\<rparr>) = AdvanceCamera_combined_ok s"
  "AdvanceCamera_settled_ok (s\<lparr>advance_camera.near := n\<rparr>) = AdvanceCamera_settled_ok s"
  "AdvanceCamera_combined_ok (s\<lparr>advance_camera.far := f\<rparr>) = AdvanceCamera_combined_ok s"
  "AdvanceCamera_settled_ok (s\<lparr>advance_camera.far := f\<rparr>) = AdvanceCamera_settled_ok s"
  "AdvanceCamera_combined_ok (s\<lparr>advance_camera.rotation := r\<rparr>) = AdvanceCamera_combined_ok s"
  "AdvanceCamera_settled_ok (s\<lparr>advance_camera.rotation := r\<rparr>) = AdvanceCamera_settled_ok s"
  "AdvanceCamera_combined_ok (s\<lparr>advance_camera.anchor := a\<rparr>) = AdvanceCamera_combined_ok s"
  "AdvanceCamera_settled_ok (s\<lparr>advance_camera.anchor := a\<rparr>) = AdvanceCamera_settled_ok s"
  by (simp_all add: AdvanceCamera_combined_ok_def AdvanceCamera_settled_ok_def)

lemma AdvanceCamera_init_ok:
  assumes "AdvanceCamera_init w v p z r a = Returns s"
  shows "AdvanceCamera_combined_ok s \<and> AdvanceCamera_settled_ok s"
proof -
  from assms [unfolded AdvanceCamera_init_def] obtain s2
    where rot: "AdvanceCamera_set_rotation_matrix s2 = Returns s"
      and inner: "then_call (AdvanceCamera_set_projection_matrix False (AdvanceCamera_new w v p z r a))
        AdvanceCamera_set_view_matrix = Returns s2"
    by (rule then_call_Returns)
  from inner obtain s1
    where proj: "AdvanceCamera_set_projection_matrix False (AdvanceCamera_new w v p z r a)
        = Returns s1"
      and view: "AdvanceCamera_set_view_matrix s1 = Returns s2"
    by (rule then_call_Returns)
  have "AdvanceCamera_settled_ok (AdvanceCamera_new w v p z r a)"
    by (simp add: AdvanceCamera_settled_ok_def AdvanceCamera_new_def)
  with AdvanceCamera_set_projection_matrix_False_settled [OF proj]
  have "AdvanceCamera_settled_ok s1" by simp
  with AdvanceCamera_set_view_matrix_ok [OF view]
  have "AdvanceCamera_combined_ok s2 \<and> AdvanceCamera_settled_ok s2" by simp
  with AdvanceCamera_set_rotation_matrix_ok [OF rot] show ?thesis by simp
qed

lemma AdvanceCamera_set_viewport_ok:
  assumes "AdvanceCamera_set_viewport w v s = Returns s'"
  shows "AdvanceCamera_combined_ok s'"
    and "AdvanceCamera_settled_ok s' = AdvanceCamera_settled_ok s"
proof -
  from assms [unfolded AdvanceCamera_set_viewport_def] obtain s1
    where view: "AdvanceCamera_set_view_matrix
        (s\<lparr>advance_camera.viewport :=
            (case v of Some v \<Rightarrow> v | None \<Rightarrow> (0, 0, width w, height w))\<rparr>) = Returns s1"
      and rot: "AdvanceCamera_set_rotation_matrix s1 = Returns s'"
    by (rule then_call_Returns)
  from AdvanceCamera_set_view_matrix_ok [OF view] AdvanceCamera_set_rotation_matrix_ok [OF rot]
  show "AdvanceCamera_combined_ok s'"
    and "AdvanceCamera_settled_ok s' = AdvanceCamera_settled_ok s"
    by (simp_all add: AdvanceCamera_field_update_ok)
qed

lemma AdvanceCamera_set_zoom_ok:
  assumes "AdvanceCamera_set_zoom z s = Returns s'"
  shows "AdvanceCamera_combined_ok s'"
    and "AdvanceCamera_settled_ok s' = AdvanceCamera_settled_ok s"
proof -
  from assms [unfolded AdvanceCamera_set_zoom_def] obtain s1
    where proj: "AdvanceCamera_set_projection_matrix False (s\<lparr>advance_camera.zoom := z\<rparr>)
        = Returns s1"
      and view: "AdvanceCamera_set_view_matrix s1 = Returns s'"
    by (rule then_call_Returns)
  from AdvanceCamera_set_projection_matrix_False_settled [OF proj]
    AdvanceCamera_set_view_matrix_ok [OF view]
  show "AdvanceCamera_combined_ok s'"
    and "AdvanceCamera_settled_ok s' = AdvanceCamera_settled_ok s"
    by (simp_all add: AdvanceCamera_field_update_ok)
qed

lemma AdvanceCamera_move_to_ok:
  assumes "AdvanceCamera_move_to vector speed s = Returns s'"
  shows "AdvanceCamera_combined_ok s' = AdvanceCamera_combined_ok s"
    and "AdvanceCamera_settled_ok s'"
proof -
  from assms have "s' = s\<lparr>advance_camera.goal_position := (fst vector, snd vector),
                advance_camera.move_speed := speed, advance_camera.moving := True\<rparr>"
    by (simp add: AdvanceCamera_move_to_def)
  then show "AdvanceCamera_combined_ok s' = AdvanceCamera_combined_ok s"
    and "AdvanceCamera_settled_ok s'"
    by (simp_all add: AdvanceCamera_combined_ok_def AdvanceCamera_settled_ok_def)
qed

lemma AdvanceCamera_shake_ok:
  assumes "AdvanceCamera_shake velocity speed damping s = Returns s'"
  shows "AdvanceCamera_combined_ok s' = AdvanceCamera_combined_ok s"
    and "AdvanceCamera_settled_ok s' = AdvanceCamera_settled_ok s"
proof -
  from assms have "s' = s\<lparr>advance_camera.shake_velocity := vadd (advance_camera.shake_velocity s) velocity,
                advance_camera.shake_speed := speed,
                advance_camera.shake_damping := damping,
                advance_camera.shaking := True\<rparr>"
    by (simp add: AdvanceCamera_shake_def)
  then show "AdvanceCamera_combined_ok s' = AdvanceCamera_combined_ok s"
    and "AdvanceCamera_settled_ok s' = AdvanceCamera_settled_ok s"
    by (simp_all add: AdvanceCamera_combined_ok_def AdvanceCamera_settled_ok_def)
qed

lemma AdvanceCamera_use_Returns:
  "AdvanceCamera_use s w = Returns (s', w') \<Longrightarrow>
     AdvanceCamera_update s = Returns s'
     \<and> w' = w\<lparr>current_camera := Some AdvanceCamera,
               ctx_viewport := advance_camera.viewport s',
               ctx_projection_2d_matrix := Some (advance_camera.combined_matrix s'),
               ctx_view_matrix_2d := advance_camera.rotation_matrix s'\<rparr>"
  by (cases "AdvanceCamera_update s") (simp_all add: AdvanceCamera_use_def Let_def)

lemma AdvanceCamera_reachable_ok:
  "AdvanceCamera_reachable s \<Longrightarrow> AdvanceCamera_combined_ok s \<and> AdvanceCamera_settled_ok s"
proof (induction rule: AdvanceCamera_reachable.induct)
  case (init w v p z r a s)
  then show ?case by (rule AdvanceCamera_init_ok)
next
  case (set_viewport s w v s')
  with AdvanceCamera_set_viewport_ok [OF set_viewport(2)] show ?case by simp
next
  case (set_projection s w p s')
  with AdvanceCamera_set_projection_matrix_ok
    [OF set_projection(2) [unfolded AdvanceCamera_set_projection_def]]
  show ?case by (simp add: AdvanceCamera_field_update_ok)
next
  case (set_zoom s z s')
  with AdvanceCamera_set_zoom_ok [OF set_zoom(2)] show ?case by simp
next
  case (set_near s n s')
  with AdvanceCamera_set_projection_matrix_ok [OF set_near(2) [unfolded AdvanceCamera_set_near_def]]
  show ?case by (simp add: AdvanceCamera_field_update_ok)
next
  case (set_far s f s')
  with AdvanceCamera_set_projection_matrix_ok [OF set_far(2) [unfolded AdvanceCamera_set_far_def]]
  show ?case by (simp add: AdvanceCamera_field_update_ok)
next
  case (set_rotation s r s')
  with AdvanceCamera_set_rotation_matrix_ok
    [OF set_rotation(2) [unfolded AdvanceCamera_set_rotation_def]]
  show ?case by (simp add: AdvanceCamera_field_update_ok)
next
  case (set_anchor s a s')
  with AdvanceCamera_set_rotation_matrix_ok
    [OF set_anchor(2) [unfolded AdvanceCamera_set_anchor_def]]
  show ?case by (simp add: AdvanceCamera_field_update_ok)
next
  case (update s s')
  with AdvanceCamera_update_ok [OF update(2)] show ?case by simp
next
  case (resize s w vw vh s')
  from resize(2) obtain v where "AdvanceCamera_set_viewport w v s = Returns s'"
    by (cases "advance_camera.viewport s") (simp add: AdvanceCamera_resize_def)
  from AdvanceCamera_set_viewport_ok [OF this] resize(3) show ?case by simp
next
  case (shake s velocity speed damping s')
  with AdvanceCamera_shake_ok [OF shake(2)] show ?case by simp
next
  case (move_to s vector speed s')
  with AdvanceCamera_move_to_ok [OF move_to(2)] show ?case by simp
next
  case (move s vector s')
  with AdvanceCamera_move_to_ok [OF move(2) [unfolded AdvanceCamera_move_def]] show ?case by simp
next
  case (center s vector speed s')
  with AdvanceCamera_move_to_ok [OF center(2) [unfolded AdvanceCamera_center_def Let_def]]
  show ?case by simp
next
  case (use s w s' w')
  from use(2) have "AdvanceCamera_update s = Returns s'" by (simp add: AdvanceCamera_use_Returns)
  from AdvanceCamera_update_ok [OF this] use(3) show ?case by simp
qed

lemma AdvanceCamera_set_view_matrix_frame:
  "advance_camera.position (final (AdvanceCamera_set_view_matrix s)) = advance_camera.position s"
  "advance_camera.goal_position (final (AdvanceCamera_set_view_matrix s))
     = advance_camera.goal_position s"
  "advance_camera.move_speed (final (AdvanceCamera_set_view_matrix s)) = advance_camera.move_speed s"
  "advance_camera.moving (final (AdvanceCamera_set_view_matrix s)) = advance_camera.moving s"
  by (cases "AdvanceCamera_view_of s";
      simp add: AdvanceCamera_set_view_matrix_def AdvanceCamera_set_combined_matrix_def)+

lemma AdvanceCamera_update_moving_stuck:
  assumes "advance_camera.moving s" and "advance_camera.move_speed s = 0"
    and "advance_camera.position s \<noteq> advance_camera.goal_position s"
  shows "AdvanceCamera_update_moving s = s"
  using assms by (simp add: AdvanceCamera_update_moving_def lerp_zero Let_def)

lemma AdvanceCamera_update_stuck:
  assumes "advance_camera.moving s" and "advance_camera.move_speed s = 0"
    and "advance_camera.position s \<noteq> advance_camera.goal_position s"
  shows "AdvanceCamera_update s = AdvanceCamera_set_view_matrix (AdvanceCamera_update_shaking s)"
  using assms
  by (simp add: AdvanceCamera_update_def AdvanceCamera_update_moving_stuck
      AdvanceCamera_update_shaking_frame Let_def)

lemma AdvanceCamera_updates_stuck:
  assumes "advance_camera.moving s" and "advance_camera.move_speed s = 0"
    and "advance_camera.position s \<noteq> advance_camera.goal_position s"
  shows "advance_camera.position (AdvanceCamera_updates n s) = advance_camera.position s
     \<and> advance_camera.goal_position (AdvanceCamera_updates n s) = advance_camera.goal_position s
     \<and> advance_camera.move_speed (AdvanceCamera_updates n s) = 0
     \<and> advance_camera.moving (AdvanceCamera_updates n s)"
  using assms
proof (induction n arbitrary: s)
  case 0
  then show ?case by simp
next
  case (Suc n)
  let ?s' = "final (AdvanceCamera_update s)"
  from Suc.prems
  have u: "AdvanceCamera_update s = AdvanceCamera_set_view_matrix (AdvanceCamera_update_shaking s)"
    by (rule AdvanceCamera_update_stuck)
  with Suc.prems have "advance_camera.moving ?s'" and "advance_camera.move_speed ?s' = 0"
    and "advance_camera.position ?s' \<noteq> advance_camera.goal_position ?s'"
    by (simp_all add: AdvanceCamera_set_view_matrix_frame AdvanceCamera_update_shaking_frame)
  from Suc.IH [OF this] show ?case
    by (simp add: u AdvanceCamera_set_view_matrix_frame AdvanceCamera_update_shaking_frame)
qed






















lemma AdvanceCamera_projection_of_error:
  "AdvanceCamera_projection_of s = Inl e \<Longrightarrow> e = ZeroDivisionError"
  by (cases "advance_camera.projection s")
     (simp add: AdvanceCamera_projection_of_def Let_def orthogonal_projection_error)

lemma AdvanceCamera_view_of_Inl:
  "(\<exists>e. AdvanceCamera_view_of s = Inl e) =
     (AdvanceCamera_viewport_width s = 0 \<or> AdvanceCamera_viewport_height s = 0
      \<or> advance_camera.zoom s = 0)"
  by (auto simp add: AdvanceCamera_view_of_def truediv_def Let_def)

lemma AdvanceCamera_view_of_error:
  "AdvanceCamera_view_of s = Inl e \<Longrightarrow> e = ZeroDivisionError"
  by (auto simp add: AdvanceCamera_view_of_def truediv_def Let_def split: if_splits)

lemma AdvanceCamera_set_view_matrix_returns:
  "returns (AdvanceCamera_set_view_matrix s) =
     (AdvanceCamera_viewport_width s \<noteq> 0 \<and> AdvanceCamera_viewport_height s \<noteq> 0
      \<and> advance_camera.zoom s \<noteq> 0)"
  using AdvanceCamera_view_of_Inl [of s]
  by (cases "AdvanceCamera_view_of s") (auto simp add: AdvanceCamera_set_view_matrix_def)

lemma AdvanceCamera_set_view_matrix_raises:
  assumes "\<not> returns (AdvanceCamera_set_view_matrix s)"
  shows "AdvanceCamera_set_view_matrix s = Raises ZeroDivisionError s"
proof (cases "AdvanceCamera_view_of s")
  case (Inl e)
  then have "e = ZeroDivisionError" by (rule AdvanceCamera_view_of_error)
  with Inl show ?thesis by (simp add: AdvanceCamera_set_view_matrix_def)
next
  case (Inr m)
  with assms show ?thesis by (simp add: AdvanceCamera_set_view_matrix_def)
qed

lemma AdvanceCamera_set_view_matrix_final:
  "advance_camera.zoom (final (AdvanceCamera_set_view_matrix s)) = advance_camera.zoom s"
  "advance_camera.viewport (final (AdvanceCamera_set_view_matrix s)) = advance_camera.viewport s"
  by (cases "AdvanceCamera_view_of s";
      simp add: AdvanceCamera_set_view_matrix_def AdvanceCamera_set_combined_matrix_def)+

lemma AdvanceCamera_set_projection_matrix_returns:
  "returns (AdvanceCamera_set_projection_matrix b s) =
     (AdvanceCamera_projection_of s \<noteq> Inl ZeroDivisionError)"
proof (cases "AdvanceCamera_projection_of s")
  case (Inl e)
  then have "e = ZeroDivisionError" by (rule AdvanceCamera_projection_of_error)
  with Inl show ?thesis by (simp add: AdvanceCamera_set_projection_matrix_def)
next
  case (Inr m)
  then show ?thesis
    by (cases b) (simp_all add: AdvanceCamera_set_projection_matrix_def Let_def)
qed

lemma AdvanceCamera_set_projection_matrix_raises:
  assumes "\<not> returns (AdvanceCamera_set_projection_matrix b s)"
  shows "AdvanceCamera_set_projection_matrix b s = Raises ZeroDivisionError s"
proof (cases "AdvanceCamera_projection_of s")
  case (Inl e)
  then have "e = ZeroDivisionError" by (rule AdvanceCamera_projection_of_error)
  with Inl show ?thesis by (simp add: AdvanceCamera_set_projection_matrix_def)
next
  case (Inr m)
  with assms show ?thesis
    by (cases b) (simp_all add: AdvanceCamera_set_projection_matrix_def Let_def)
qed

lemma AdvanceCamera_set_projection_matrix_final:
  "advance_camera.zoom (final (AdvanceCamera_set_projection_matrix b s)) = advance_camera.zoom s"
  "advance_camera.viewport (final (AdvanceCamera_set_projection_matrix b s))
     = advance_camera.viewport s"
  by (cases "AdvanceCamera_projection_of s";
      simp add: AdvanceCamera_set_projection_matrix_def AdvanceCamera_set_combined_matrix_def
        Let_def)+

lemma AdvanceCamera_set_viewport_outcome:
  "returns (AdvanceCamera_set_viewport w (Some (l, b, vw, vh)) s)
     = (vw \<noteq> 0 \<and> vh \<noteq> 0 \<and> advance_camera.zoom s \<noteq> 0)"
  "\<not> returns (AdvanceCamera_set_viewport w (Some (l, b, vw, vh)) s) \<Longrightarrow>
     AdvanceCamera_set_viewport w (Some (l, b, vw, vh)) s
       = Raises ZeroDivisionError (s\<lparr>advance_camera.viewport := (l, b, vw, vh)\<rparr>)"
  "advance_camera.viewport (final (AdvanceCamera_set_viewport w (Some (l, b, vw, vh)) s))
     = (l, b, vw, vh)"
proof -
  let ?s0 = "s\<lparr>advance_camera.viewport := (l, b, vw, vh)\<rparr>"
  have d: "AdvanceCamera_set_viewport w (Some (l, b, vw, vh)) s =
      then_call (AdvanceCamera_set_view_matrix ?s0) AdvanceCamera_set_rotation_matrix"
    by (simp add: AdvanceCamera_set_viewport_def)
  have c: "returns (AdvanceCamera_set_view_matrix ?s0)
      = (vw \<noteq> 0 \<and> vh \<noteq> 0 \<and> advance_camera.zoom s \<noteq> 0)"
    by (simp add: AdvanceCamera_set_view_matrix_returns AdvanceCamera_viewport_width_def
        AdvanceCamera_viewport_height_def)
  show "returns (AdvanceCamera_set_viewport w (Some (l, b, vw, vh)) s)
     = (vw \<noteq> 0 \<and> vh \<noteq> 0 \<and> advance_camera.zoom s \<noteq> 0)"
    unfolding d c [symmetric]
    by (cases "AdvanceCamera_set_view_matrix ?s0")
       (simp_all add: AdvanceCamera_set_rotation_matrix_def)
  show "AdvanceCamera_set_viewport w (Some (l, b, vw, vh)) s = Raises ZeroDivisionError ?s0"
    if n: "\<not> returns (AdvanceCamera_set_viewport w (Some (l, b, vw, vh)) s)"
  proof -
    from n have "\<not> returns (AdvanceCamera_set_view_matrix ?s0)"
      unfolding d
      by (cases "AdvanceCamera_set_view_matrix ?s0")
         (simp_all add: AdvanceCamera_set_rotation_matrix_def)
    then have "AdvanceCamera_set_view_matrix ?s0 = Raises ZeroDivisionError ?s0"
      by (rule AdvanceCamera_set_view_matrix_raises)
    then show ?thesis unfolding d by simp
  qed
  show "advance_camera.viewport (final (AdvanceCamera_set_viewport w (Some (l, b, vw, vh)) s))
     = (l, b, vw, vh)"
    unfolding d
    using AdvanceCamera_set_view_matrix_final(2) [of ?s0]
    by (cases "AdvanceCamera_set_view_matrix ?s0")
       (simp_all add: AdvanceCamera_set_rotation_matrix_def)
qed

lemma AdvanceCamera_set_zoom_outcome:
  "returns (AdvanceCamera_set_zoom z s)
     = (AdvanceCamera_projection_of (s\<lparr>advance_camera.zoom := z\<rparr>) \<noteq> Inl ZeroDivisionError
        \<and> AdvanceCamera_viewport_width s \<noteq> 0 \<and> AdvanceCamera_viewport_height s \<noteq> 0
        \<and> z \<noteq> 0)"
  "\<not> returns (AdvanceCamera_set_zoom z s) \<Longrightarrow>
     AdvanceCamera_set_zoom z s = Raises ZeroDivisionError (final (AdvanceCamera_set_zoom z s))"
  "advance_camera.zoom (final (AdvanceCamera_set_zoom z s)) = z"
proof -
  let ?s0 = "s\<lparr>advance_camera.zoom := z\<rparr>"
  let ?x = "AdvanceCamera_set_projection_matrix False ?s0"
  have d: "AdvanceCamera_set_zoom z s = then_call ?x AdvanceCamera_set_view_matrix"
    by (simp add: AdvanceCamera_set_zoom_def)
  have f: "AdvanceCamera_viewport_width (final ?x) = AdvanceCamera_viewport_width s"
    "AdvanceCamera_viewport_height (final ?x) = AdvanceCamera_viewport_height s"
    "advance_camera.zoom (final ?x) = z"
    by (simp_all add: AdvanceCamera_viewport_width_def AdvanceCamera_viewport_height_def
        AdvanceCamera_set_projection_matrix_final)
  show "returns (AdvanceCamera_set_zoom z s)
     = (AdvanceCamera_projection_of ?s0 \<noteq> Inl ZeroDivisionError
        \<and> AdvanceCamera_viewport_width s \<noteq> 0 \<and> AdvanceCamera_viewport_height s \<noteq> 0
        \<and> z \<noteq> 0)"
    unfolding d AdvanceCamera_set_projection_matrix_returns [of False ?s0, symmetric]
    using f AdvanceCamera_set_view_matrix_returns [of "final ?x"]
    by (cases ?x) simp_all
  show "AdvanceCamera_set_zoom z s = Raises ZeroDivisionError (final (AdvanceCamera_set_zoom z s))"
    if n: "\<not> returns (AdvanceCamera_set_zoom z s)"
  proof (cases "returns ?x")
    case True
    then obtain s1 where s1: "?x = Returns s1" by (cases ?x) simp_all
    with n have "\<not> returns (AdvanceCamera_set_view_matrix s1)" unfolding d by simp
    then have "AdvanceCamera_set_view_matrix s1 = Raises ZeroDivisionError s1"
      by (rule AdvanceCamera_set_view_matrix_raises)
    with s1 show ?thesis unfolding d by simp
  next
    case False
    then have "?x = Raises ZeroDivisionError ?s0"
      by (rule AdvanceCamera_set_projection_matrix_raises)
    then show ?thesis unfolding d by simp
  qed
  show "advance_camera.zoom (final (AdvanceCamera_set_zoom z s)) = z"
    unfolding d
    using f(3) AdvanceCamera_set_view_matrix_final(1) [of "final ?x"]
    by (cases ?x) simp_all
qed

section \<open>Evaluation of the example states\<close>

lemmas BaseCamera_defs =
  BaseCamera_init_def BaseCamera_new_def BaseCamera_set_projection_matrix_def BaseCamera_projection_of_def
  BaseCamera_set_view_matrix_def BaseCamera_view_of_def BaseCamera_set_combined_matrix_def
  BaseCamera_viewport_width_def BaseCamera_viewport_height_def BaseCamera_set_viewport_def
  BaseCamera_set_projection_def BaseCamera_move_to_def BaseCamera_move_def BaseCamera_update_def
  BaseCamera_use_def

lemmas AdvanceCamera_matrix_defs =
  AdvanceCamera_set_projection_matrix_def AdvanceCamera_projection_of_def
  AdvanceCamera_set_view_matrix_def AdvanceCamera_view_of_def
  AdvanceCamera_set_rotation_matrix_def AdvanceCamera_rotation_of_def
  AdvanceCamera_set_combined_matrix_def AdvanceCamera_viewport_width_def
  AdvanceCamera_viewport_height_def

lemmas AdvanceCamera_update_defs =
  AdvanceCamera_update_def AdvanceCamera_update_moving_def AdvanceCamera_update_shaking_def

lemmas numeric_defs =
  orthogonal_projection_def truediv_def vadd_def vsub_def vmul_def lerp_def rotation_about_def
  radians_def identity_def get_distance_def Let_def

lemma sin_3pi_2: "sin (3 * pi / 2) = - 1"
  using sin_3over2_pi by (simp add: mult.commute)

lemma cos_3pi_2: "cos (3 * pi / 2) = 0"
  using cos_3over2_pi by (simp add: mult.commute)

lemma adv_default_value:
  "adv_default =
     \<lparr>advance_camera.position = (0, 0), goal_position = (0, 0),
        move_speed = 1, moving = False, zoom = 1, rotation = 0,
        anchor = None, near = - 1, far = 1, shake_velocity = (0, 0),
        shake_offset = (0, 0), shake_speed = 0, shake_damping = 0,
        shaking = False, viewport = (0, 0, 800, 600),
        projection = (0, 800, 0, 600),
        projection_matrix = Mat4 (1 / 400) 0 0 0  0 (1 / 300) 0 0  0 0 (- 1) 0  (- 1) (- 1) 0 1,
        view_matrix = Mat4 1 0 0 0  0 1 0 0  0 0 1 0  0 0 0 1,
        combined_matrix = Mat4 (1 / 400) 0 0 0  0 (1 / 300) 0 0  0 0 (- 1) 0  (- 1) (- 1) 0 1,
        rotation_matrix = Mat4 1 0 0 0  0 1 0 0  0 0 1 0  0 0 0 1\<rparr>"
  by (simp add: adv_default_def AdvanceCamera_init_def AdvanceCamera_new_def AdvanceCamera_matrix_defs numeric_defs
      window0_def)

lemma adv_default_init:
  "AdvanceCamera_init window0 None None 1 0 None = Returns adv_default"
  by (simp add: adv_default_value AdvanceCamera_init_def AdvanceCamera_new_def AdvanceCamera_matrix_defs numeric_defs
      window0_def)

lemma adv_moved_value:
  "adv_moved =
     adv_default\<lparr>advance_camera.position := (100, 50), advance_camera.goal_position := (100, 50)\<rparr>"
  by (simp add: adv_moved_def adv_default_value AdvanceCamera_update_defs AdvanceCamera_move_def
      AdvanceCamera_move_to_def lerp_def Let_def)

lemma adv_shaken_value:
  "adv_shaken =
     adv_default\<lparr>advance_camera.shake_velocity := (- (9 / 10), 0),
                 advance_camera.shake_speed := 3 / 2,
                 advance_camera.shake_damping := 9 / 10\<rparr>"
  by (simp add: adv_shaken_def adv_default_value AdvanceCamera_update_defs AdvanceCamera_shake_def
      numeric_defs atan2_def sin_3pi_2 cos_3pi_2)

lemma adv_rotated_value:
  "adv_rotated =
     adv_default\<lparr>advance_camera.goal_position := (100, 0), advance_camera.moving := True,
                 advance_camera.rotation := 180,
                 advance_camera.rotation_matrix := Mat4 (- 1) 0 0 0  0 (- 1) 0 0  0 0 1 0  800 600 0 1\<rparr>"
  by (simp add: adv_rotated_def adv_default_value AdvanceCamera_init_def AdvanceCamera_new_def AdvanceCamera_matrix_defs
      numeric_defs window0_def AdvanceCamera_move_def AdvanceCamera_move_to_def)

lemma adv_rotated_use:
  "AdvanceCamera_use adv_rotated window0 =
     Returns (adv_rotated\<lparr>advance_camera.position := (100, 0), advance_camera.moving := False\<rparr>,
              window0\<lparr>current_camera := Some AdvanceCamera,
                      ctx_projection_2d_matrix :=
                        Some (Mat4 (1 / 400) 0 0 0  0 (1 / 300) 0 0  0 0 (- 1) 0  (- 1) (- 1) 0 1),
                      ctx_view_matrix_2d := Mat4 (- 1) 0 0 0  0 (- 1) 0 0  0 0 1 0  800 600 0 1\<rparr>)"
  by (simp add: adv_rotated_value adv_default_value AdvanceCamera_use_def AdvanceCamera_update_defs
      lerp_def Let_def window0_def)

lemma cam_default_value:
  "cam_default =
     \<lparr>camera.position = (0, 0), goal_position = (0, 0), rotation = 0, anchor = None,
        move_speed = 1,
        projection_matrix = Some (Mat4 (1 / 400) 0 0 0  0 (1 / 300) 0 0  0 0 (- 1) 0  (- 1) (- 1) 0 1),
        view_matrix = None, combined_matrix = None, near = - 1, far = 1,
        shake_velocity = (0, 0), shake_offset = (0, 0), shake_speed = 0, shake_damping = 0,
        scale = 1, viewport_width = 800, viewport_height = 600\<rparr>"
  by (simp add: cam_default_def Camera_init_def Camera_new_def Camera_set_projection_def Camera_projection_of_def numeric_defs window0_def)




lemma base_default_value:
  "base_default =
     \<lparr>base_camera.viewport = (0, 0, 800, 600), projection = (0, 800, 0, 600),
        projection_matrix = Mat4 (1 / 400) 0 0 0  0 (1 / 300) 0 0  0 0 (- 1) 0  (- 1) (- 1) 0 1,
        view_matrix = Mat4 1 0 0 0  0 1 0 0  0 0 1 0  0 0 0 1,
        combined_matrix = Mat4 (1 / 400) 0 0 0  0 (1 / 300) 0 0  0 0 (- 1) 0  (- 1) (- 1) 0 1,
        position = (0, 0), goal_position = (0, 0), move_speed = 1, moving = False\<rparr>"
  by (simp add: base_default_def BaseCamera_defs numeric_defs window0_def)

lemma base_default_init: "BaseCamera_init window0 None None = Returns base_default"
  by (simp add: base_default_value BaseCamera_defs numeric_defs window0_def)

lemma base_default_reachable: "BaseCamera_reachable base_default"
  by (rule BaseCamera_reachable.init [OF base_default_init])

lemma adv_default_reachable: "AdvanceCamera_reachable adv_default"
  by (rule AdvanceCamera_reachable.init [OF adv_default_init])


lemma base_moved_value:
  "base_moved =
     base_default\<lparr>base_camera.position := (100, 60), base_camera.goal_position := (100, 60),
        base_camera.view_matrix := Mat4 1 0 0 0  0 1 0 0  0 0 1 0  (- (1 / 4)) (- (1 / 5)) 0 1,
        base_camera.combined_matrix :=
          Mat4 (1 / 400) 0 0 0  0 (1 / 300) 0 0  0 0 (- 1) 0  (- (5 / 4)) (- (6 / 5)) 0 1\<rparr>"
  by (simp add: base_moved_def base_default_value BaseCamera_defs numeric_defs)







section \<open>The combined matrix is the product of projection and view\<close>



section \<open>The end of a shake\<close>

text \<open>
  C2, the code at the failing input: the default Advanced camera after
  \<^verbatim>\<open>shake((1, 0), 1.5, 0.9)\<close> and one \<^verbatim>\<open>update()\<close>. The update finds both magnitudes
  (1 and 1) under the shake speed 1.5, zeroes the shake and clears \<open>shaking\<close>, then adds
  the opposite vector and damps: the velocity is left at \<open>(-0.9, 0)\<close> with \<open>shaking\<close>
  false.
\<close>

theorem AdvanceCamera_shake_end_velocity:
  "\<not> advance_camera.shaking adv_shaken
   \<and> advance_camera.shake_velocity adv_shaken = (- (9 / 10), 0)
   \<and> advance_camera.shake_velocity adv_shaken \<noteq> (0, 0)
   \<and> advance_camera.shake_offset adv_shaken = (0, 0)"
  by (simp add: adv_shaken_value adv_default_value)

section \<open>The published rotation matrix\<close>

text \<open>
  C3, the code at the failing input: an Advanced camera made with \<^verbatim>\<open>rotation=180\<close> and no
  anchor in the 800 by 600 window, after \<^verbatim>\<open>move((100, 0))\<close> and \<^verbatim>\<open>use()\<close>. The update
  moves the position to \<open>(100, 0)\<close>, but \<^verbatim>\<open>use()\<close> publishes the rotation matrix cached
  for the position \<open>(0, 0)\<close> (about the point \<open>(400, 300)\<close>); the rotation derived from the
  current state is about \<open>(500, 300)\<close>.
\<close>

theorem AdvanceCamera_use_stale_rotation:
  "returns (AdvanceCamera_use adv_rotated window0)
   \<and> advance_camera.position (fst (final (AdvanceCamera_use adv_rotated window0))) = (100, 0)
   \<and> advance_camera.anchor (fst (final (AdvanceCamera_use adv_rotated window0))) = None
   \<and> ctx_view_matrix_2d (snd (final (AdvanceCamera_use adv_rotated window0)))
       = Mat4 (- 1) 0 0 0  0 (- 1) 0 0  0 0 1 0  800 600 0 1
   \<and> AdvanceCamera_rotation_of (fst (final (AdvanceCamera_use adv_rotated window0)))
       = Mat4 (- 1) 0 0 0  0 (- 1) 0 0  0 0 1 0  1000 600 0 1"
  by (simp add: adv_rotated_use)
     (simp add: adv_rotated_value adv_default_value AdvanceCamera_rotation_of_def
        AdvanceCamera_viewport_width_def AdvanceCamera_viewport_height_def numeric_defs)

text \<open>
  The Standard camera builds the rotation inside \<^verbatim>\<open>use()\<close>, after the update: what it
  publishes is the rotation derived from the state it returns with.
\<close>

lemma Camera_use_publishes_current_rotation:
  assumes "returns (Camera_use c w)"
  shows "ctx_view_matrix_2d (snd (final (Camera_use c w)))
     = Camera_rotation_of (fst (final (Camera_use c w)))"
proof -
  from assms have "returns (Camera_update c)" by (simp add: Camera_use_returns_iff)
  then obtain c1 where "Camera_update c = Returns c1" by (rule returns_cases)
  then show ?thesis by (simp add: Camera_use_Returns)
qed

section \<open>Setters and the cached matrices\<close>




text \<open>
  The viewport setter of the Basic camera stores the tuple and recomputes nothing: the
  view matrix of a camera at \<open>(100, 60)\<close> stays the one for the old viewport, and a later
  \<^verbatim>\<open>use()\<close> of the settled camera publishes the combined matrix unchanged.
\<close>

lemma BaseCamera_set_viewport_leaves_view_stale:
  "BaseCamera_matrices_ok base_moved
   \<and> BaseCamera_set_viewport (0, 0, 400, 300) base_moved
       = Returns (base_moved\<lparr>base_camera.viewport := (0, 0, 400, 300)\<rparr>)
   \<and> \<not> BaseCamera_view_ok (base_moved\<lparr>base_camera.viewport := (0, 0, 400, 300)\<rparr>)
   \<and> BaseCamera_view_of (base_moved\<lparr>base_camera.viewport := (0, 0, 400, 300)\<rparr>)
       = Inr (Mat4 1 0 0 0  0 1 0 0  0 0 1 0  (- (1 / 2)) (- (2 / 5)) 0 1)
   \<and> fst (final (BaseCamera_use (base_moved\<lparr>base_camera.viewport := (0, 0, 400, 300)\<rparr>) window0))
       = base_moved\<lparr>base_camera.viewport := (0, 0, 400, 300)\<rparr>"
  by (simp add: base_moved_value base_default_value BaseCamera_matrices_ok_def
      BaseCamera_projection_ok_def BaseCamera_view_ok_def BaseCamera_combined_ok_def
      BaseCamera_defs numeric_defs)

section \<open>The rotation keeps the anchor fixed\<close>



section \<open>Invalid viewports and zooms\<close>

text \<open>
  C6, as the code has it: the setters of the Advanced camera validate nothing. A viewport
  with zero width or height, and a zoom of zero, make the setter raise
  \<^verbatim>\<open>ZeroDivisionError\<close> from the matrix computation, after the value is stored. The
  viewport setter returns exactly when width, height and the current zoom are not zero,
  the zoom setter exactly when the orthographic projection does not divide by zero and
  the viewport extents and the zoom are not zero: negative values are accepted. When a
  setter does not return it raises \<^verbatim>\<open>ZeroDivisionError\<close>, and the value is stored
  unclamped in both cases. The viewport setter of the Basic camera always returns.
\<close>

theorem setters_do_not_validate:
  "(vw = 0 \<or> vh = 0 \<longrightarrow>
      AdvanceCamera_set_viewport w (Some (l, b, vw, vh)) s
        = Raises ZeroDivisionError (s\<lparr>advance_camera.viewport := (l, b, vw, vh)\<rparr>))
   \<and> AdvanceCamera_set_zoom 0 s = Raises ZeroDivisionError (final (AdvanceCamera_set_zoom 0 s))
   \<and> advance_camera.zoom (final (AdvanceCamera_set_zoom 0 s)) = 0
   \<and> returns (AdvanceCamera_set_viewport w (Some (l, b, vw, vh)) s)
        = (vw \<noteq> 0 \<and> vh \<noteq> 0 \<and> advance_camera.zoom s \<noteq> 0)
   \<and> returns (AdvanceCamera_set_zoom z s)
        = (AdvanceCamera_projection_of (s\<lparr>advance_camera.zoom := z\<rparr>) \<noteq> Inl ZeroDivisionError
           \<and> AdvanceCamera_viewport_width s \<noteq> 0 \<and> AdvanceCamera_viewport_height s \<noteq> 0
           \<and> z \<noteq> 0)
   \<and> (\<not> returns (AdvanceCamera_set_viewport w (Some (l, b, vw, vh)) s) \<longrightarrow>
        AdvanceCamera_set_viewport w (Some (l, b, vw, vh)) s
          = Raises ZeroDivisionError (s\<lparr>advance_camera.viewport := (l, b, vw, vh)\<rparr>))
   \<and> (\<not> returns (AdvanceCamera_set_zoom z s) \<longrightarrow>
        AdvanceCamera_set_zoom z s = Raises ZeroDivisionError (final (AdvanceCamera_set_zoom z s)))
   \<and> advance_camera.viewport (final (AdvanceCamera_set_viewport w (Some (l, b, vw, vh)) s))
        = (l, b, vw, vh)
   \<and> advance_camera.zoom (final (AdvanceCamera_set_zoom z s)) = z
   \<and> BaseCamera_set_viewport v c = Returns (c\<lparr>base_camera.viewport := v\<rparr>)"
proof -
  have 1: "vw = 0 \<or> vh = 0 \<longrightarrow>
      AdvanceCamera_set_viewport w (Some (l, b, vw, vh)) s
        = Raises ZeroDivisionError (s\<lparr>advance_camera.viewport := (l, b, vw, vh)\<rparr>)"
  proof
    assume "vw = 0 \<or> vh = 0"
    then have "\<not> returns (AdvanceCamera_set_viewport w (Some (l, b, vw, vh)) s)"
      by (auto simp add: AdvanceCamera_set_viewport_outcome(1))
    then show "AdvanceCamera_set_viewport w (Some (l, b, vw, vh)) s
        = Raises ZeroDivisionError (s\<lparr>advance_camera.viewport := (l, b, vw, vh)\<rparr>)"
      by (rule AdvanceCamera_set_viewport_outcome(2))
  qed
  have "\<not> returns (AdvanceCamera_set_zoom 0 s)"
    by (simp add: AdvanceCamera_set_zoom_outcome(1))
  then have 2: "AdvanceCamera_set_zoom 0 s
      = Raises ZeroDivisionError (final (AdvanceCamera_set_zoom 0 s))"
    by (rule AdvanceCamera_set_zoom_outcome(2))
  have 3: "BaseCamera_set_viewport v c = Returns (c\<lparr>base_camera.viewport := v\<rparr>)"
    by (simp add: BaseCamera_set_viewport_def)
  have 4: "\<not> returns (AdvanceCamera_set_viewport w (Some (l, b, vw, vh)) s) \<longrightarrow>
        AdvanceCamera_set_viewport w (Some (l, b, vw, vh)) s
          = Raises ZeroDivisionError (s\<lparr>advance_camera.viewport := (l, b, vw, vh)\<rparr>)"
    using AdvanceCamera_set_viewport_outcome(2) [of w l b vw vh s] by (rule impI)
  have 5: "\<not> returns (AdvanceCamera_set_zoom z s) \<longrightarrow>
        AdvanceCamera_set_zoom z s = Raises ZeroDivisionError (final (AdvanceCamera_set_zoom z s))"
    using AdvanceCamera_set_zoom_outcome(2) [of z s] by (rule impI)
  show ?thesis
    by (intro conjI 1 2 3 4 5 AdvanceCamera_set_zoom_outcome(3) [of 0 s]
        AdvanceCamera_set_viewport_outcome(1) AdvanceCamera_set_viewport_outcome(3)
        AdvanceCamera_set_zoom_outcome(1) AdvanceCamera_set_zoom_outcome(3))
qed

text \<open>
  C6 at the default Advanced camera: the viewport \<open>(0, 0, 0, 600)\<close> and the zoom \<open>0\<close>.
\<close>

theorem setters_do_not_validate_witness:
  "((0::int) = 0 \<or> (600::int) = 0)
   \<and> AdvanceCamera_set_viewport window0 (Some (0, 0, 0, 600)) adv_default
       = Raises ZeroDivisionError (adv_default\<lparr>advance_camera.viewport := (0, 0, 0, 600)\<rparr>)
   \<and> \<not> returns (AdvanceCamera_set_viewport window0 (Some (0, 0, 0, 600)) adv_default)
   \<and> \<not> returns (AdvanceCamera_set_zoom 0 adv_default)
   \<and> AdvanceCamera_set_zoom 0 adv_default
       = Raises ZeroDivisionError (final (AdvanceCamera_set_zoom 0 adv_default))
   \<and> advance_camera.zoom (final (AdvanceCamera_set_zoom 0 adv_default)) = 0"
proof -
  note t = setters_do_not_validate
        [where w = window0 and l = 0 and b = 0 and vw = 0 and vh = 600 and s = adv_default
           and z = 0]
  have h: "(0::int) = 0 \<or> (600::int) = 0" by simp
  have a: "AdvanceCamera_set_viewport window0 (Some (0, 0, 0, 600)) adv_default
       = Raises ZeroDivisionError (adv_default\<lparr>advance_camera.viewport := (0, 0, 0, 600)\<rparr>)"
    by (rule t [THEN conjunct1, THEN mp, OF h])
  have b: "AdvanceCamera_set_zoom 0 adv_default
       = Raises ZeroDivisionError (final (AdvanceCamera_set_zoom 0 adv_default))"
    by (rule t [THEN conjunct2, THEN conjunct1])
  have c: "advance_camera.zoom (final (AdvanceCamera_set_zoom 0 adv_default)) = 0"
    by (rule t [THEN conjunct2, THEN conjunct2, THEN conjunct1])
  have d: "\<not> returns (AdvanceCamera_set_viewport window0 (Some (0, 0, 0, 600)) adv_default)"
    by (subst a) simp
  have e: "\<not> returns (AdvanceCamera_set_zoom 0 adv_default)"
    by (subst b) simp
  from h a d e b c show ?thesis by (intro conjI)
qed

text \<open>
  C6 as stated fails: on the default Advanced camera the zoom \<open>-1\<close> and the viewport
  \<open>(0, 0, -800, -600)\<close> are accepted and stored, and the zoom \<open>0\<close> and the viewport
  \<open>(0, 0, 0, 0)\<close> raise \<^verbatim>\<open>ZeroDivisionError\<close> with the value already stored.
\<close>

theorem negative_zoom_and_viewport_accepted:
  "returns (AdvanceCamera_set_zoom (- 1) adv_default)
   \<and> advance_camera.zoom (final (AdvanceCamera_set_zoom (- 1) adv_default)) = - 1
   \<and> returns (AdvanceCamera_set_viewport window0 (Some (0, 0, - 800, - 600)) adv_default)
   \<and> advance_camera.viewport
        (final (AdvanceCamera_set_viewport window0 (Some (0, 0, - 800, - 600)) adv_default))
       = (0, 0, - 800, - 600)
   \<and> AdvanceCamera_set_zoom 0 adv_default
       = Raises ZeroDivisionError (adv_default\<lparr>advance_camera.zoom := 0\<rparr>)
   \<and> AdvanceCamera_set_viewport window0 (Some (0, 0, 0, 0)) adv_default
       = Raises ZeroDivisionError (adv_default\<lparr>advance_camera.viewport := (0, 0, 0, 0)\<rparr>)"
proof -
  have 1: "returns (AdvanceCamera_set_zoom (- 1) adv_default)"
    by (simp add: AdvanceCamera_set_zoom_outcome(1))
       (simp add: adv_default_value AdvanceCamera_projection_of_def
          AdvanceCamera_viewport_width_def AdvanceCamera_viewport_height_def numeric_defs)
  have 2: "returns (AdvanceCamera_set_viewport window0 (Some (0, 0, - 800, - 600)) adv_default)"
    by (simp add: AdvanceCamera_set_viewport_outcome(1) adv_default_value)
  have 3: "AdvanceCamera_set_zoom 0 adv_default
       = Raises ZeroDivisionError (adv_default\<lparr>advance_camera.zoom := 0\<rparr>)"
    by (simp add: adv_default_value AdvanceCamera_set_zoom_def
        AdvanceCamera_set_projection_matrix_def AdvanceCamera_projection_of_def numeric_defs)
  have 4: "AdvanceCamera_set_viewport window0 (Some (0, 0, 0, 0)) adv_default
       = Raises ZeroDivisionError (adv_default\<lparr>advance_camera.viewport := (0, 0, 0, 0)\<rparr>)"
    by (rule AdvanceCamera_set_viewport_outcome(2))
       (simp add: AdvanceCamera_set_viewport_outcome(1))
  from 1 2 3 4 show ?thesis
    by (simp add: AdvanceCamera_set_zoom_outcome(3) AdvanceCamera_set_viewport_outcome(3))
qed

section \<open>Centring the Advanced camera\<close>

text \<open>
  C8, as the code has it: \<^verbatim>\<open>center(vector, speed)\<close> of the Advanced camera returns with
  the goal position \<open>vector + position - (viewport_width / 2, viewport_height / 2)\<close>, the
  given speed and the moving flag set; the goal is \<open>vector - (viewport_width / 2,
  viewport_height / 2)\<close> exactly when the current position is \<open>(0, 0)\<close>.
\<close>

theorem AdvanceCamera_center_goal:
  "AdvanceCamera_center vector speed s =
     Returns (s\<lparr>advance_camera.goal_position :=
                  (fst vector + fst (advance_camera.position s)
                     - real_of_int (AdvanceCamera_viewport_width s) / 2,
                   snd vector + snd (advance_camera.position s)
                     - real_of_int (AdvanceCamera_viewport_height s) / 2),
                advance_camera.move_speed := speed,
                advance_camera.moving := True\<rparr>)
   \<and> ((advance_camera.goal_position (final (AdvanceCamera_center vector speed s)) =
        (fst vector - real_of_int (AdvanceCamera_viewport_width s) / 2,
         snd vector - real_of_int (AdvanceCamera_viewport_height s) / 2))
      = (advance_camera.position s = (0, 0)))"
  by (auto simp add: AdvanceCamera_center_def AdvanceCamera_move_to_def vadd_def vsub_def Let_def
      prod_eq_iff)

text \<open>
  C8 as stated fails: a camera at position \<open>(100, 50)\<close> with the viewport
  \<open>(0, 0, 800, 600)\<close>, asked to centre on \<open>(400, 300)\<close>, gets the goal \<open>(100, 50)\<close> and not
  \<open>(400, 300) - (400, 300) = (0, 0)\<close>.
\<close>

theorem AdvanceCamera_center_goal_counterexample:
  "AdvanceCamera_reachable adv_moved
   \<and> advance_camera.position adv_moved = (100, 50)
   \<and> advance_camera.viewport adv_moved = (0, 0, 800, 600)
   \<and> advance_camera.goal_position (final (AdvanceCamera_center (400, 300) 1 adv_moved)) = (100, 50)
   \<and> advance_camera.goal_position (final (AdvanceCamera_center (400, 300) 1 adv_moved))
       \<noteq> (400 - 800 / 2, 300 - 600 / 2)"
proof -
  have r0: "AdvanceCamera_reachable adv_default"
    by (rule AdvanceCamera_reachable.init [OF adv_default_init])
  have r1: "AdvanceCamera_reachable (final (AdvanceCamera_move (100, 50) adv_default))"
    by (rule AdvanceCamera_reachable.move [OF r0])
       (simp add: AdvanceCamera_move_def AdvanceCamera_move_to_def)
  have "AdvanceCamera_update (final (AdvanceCamera_move (100, 50) adv_default)) = Returns adv_moved"
    by (simp add: adv_moved_value adv_default_value AdvanceCamera_update_defs
        AdvanceCamera_move_def AdvanceCamera_move_to_def lerp_def Let_def)
  then have "AdvanceCamera_reachable adv_moved"
    by (rule AdvanceCamera_reachable.update [OF r1])
  then show ?thesis
    by (simp add: adv_moved_value adv_default_value AdvanceCamera_center_def
        AdvanceCamera_move_to_def AdvanceCamera_viewport_width_def
        AdvanceCamera_viewport_height_def vadd_def vsub_def Let_def)
qed

section \<open>Zooming the Standard camera\<close>

text \<open>
  C9: zooming the Standard camera (\<^verbatim>\<open>Camera.zoom\<close>) fails with \<^verbatim>\<open>NotImplementedError\<close>
  for every argument and every camera, and the camera is exactly as it was before the
  call.
\<close>

theorem Camera_zoom_not_implemented:
  "Camera_zoom change s = Raises NotImplementedError s"
  by (simp add: Camera_zoom_def)

section \<open>A camera with speed zero\<close>

text \<open>
  C10: a camera with \<open>move_speed = 0\<close> that is not at its goal never arrives. For the Basic
  and the Advanced camera in any reachable state, after any number \<open>n\<close> of calls of
  \<^verbatim>\<open>update()\<close> the position is unchanged and differs from the goal, \<open>moving\<close> is still
  true, and the next \<^verbatim>\<open>update()\<close> is again a call of \<^verbatim>\<open>_set_view_matrix()\<close> (after the
  shake step, for the Advanced camera). The Standard camera has no \<open>moving\<close> flag and
  recomputes its view matrix in every \<^verbatim>\<open>update()\<close>; its position stays as well.
\<close>

theorem zero_speed_never_arrives:
  "(BaseCamera_reachable b \<longrightarrow> base_camera.move_speed b = 0
      \<longrightarrow> base_camera.position b \<noteq> base_camera.goal_position b \<longrightarrow>
        base_camera.position (BaseCamera_updates n b) = base_camera.position b
        \<and> base_camera.position (BaseCamera_updates n b) \<noteq> base_camera.goal_position (BaseCamera_updates n b)
        \<and> base_camera.moving (BaseCamera_updates n b)
        \<and> BaseCamera_update (BaseCamera_updates n b)
            = BaseCamera_set_view_matrix (BaseCamera_updates n b))
   \<and> (AdvanceCamera_reachable a \<longrightarrow> advance_camera.move_speed a = 0
      \<longrightarrow> advance_camera.position a \<noteq> advance_camera.goal_position a \<longrightarrow>
        advance_camera.position (AdvanceCamera_updates n a) = advance_camera.position a
        \<and> advance_camera.position (AdvanceCamera_updates n a)
            \<noteq> advance_camera.goal_position (AdvanceCamera_updates n a)
        \<and> advance_camera.moving (AdvanceCamera_updates n a)
        \<and> AdvanceCamera_update (AdvanceCamera_updates n a)
            = AdvanceCamera_set_view_matrix
                (AdvanceCamera_update_shaking (AdvanceCamera_updates n a)))
   \<and> (camera.move_speed c = 0 \<longrightarrow> camera.position c \<noteq> camera.goal_position c \<longrightarrow>
        camera.position (Camera_updates n c) = camera.position c
        \<and> camera.position (Camera_updates n c) \<noteq> camera.goal_position (Camera_updates n c))"
proof -
  have base: "base_camera.position (BaseCamera_updates n b) = base_camera.position b
        \<and> base_camera.position (BaseCamera_updates n b) \<noteq> base_camera.goal_position (BaseCamera_updates n b)
        \<and> base_camera.moving (BaseCamera_updates n b)
        \<and> BaseCamera_update (BaseCamera_updates n b)
            = BaseCamera_set_view_matrix (BaseCamera_updates n b)"
    if r: "BaseCamera_reachable b" and z: "base_camera.move_speed b = 0"
      and d: "base_camera.position b \<noteq> base_camera.goal_position b"
  proof -
    from BaseCamera_reachable_ok [OF r] d have m: "base_camera.moving b"
      by (auto simp add: BaseCamera_settled_ok_def)
    from BaseCamera_updates_stuck [OF m z d, of n]
    have k: "base_camera.position (BaseCamera_updates n b) = base_camera.position b"
      "base_camera.goal_position (BaseCamera_updates n b) = base_camera.goal_position b"
      "base_camera.move_speed (BaseCamera_updates n b) = 0"
      "base_camera.moving (BaseCamera_updates n b)"
      by simp_all
    from k d have "base_camera.position (BaseCamera_updates n b)
        \<noteq> base_camera.goal_position (BaseCamera_updates n b)" by simp
    from BaseCamera_update_stuck [OF k(4) k(3) this] k d show ?thesis by simp
  qed
  have adv: "advance_camera.position (AdvanceCamera_updates n a) = advance_camera.position a
        \<and> advance_camera.position (AdvanceCamera_updates n a)
            \<noteq> advance_camera.goal_position (AdvanceCamera_updates n a)
        \<and> advance_camera.moving (AdvanceCamera_updates n a)
        \<and> AdvanceCamera_update (AdvanceCamera_updates n a)
            = AdvanceCamera_set_view_matrix
                (AdvanceCamera_update_shaking (AdvanceCamera_updates n a))"
    if r: "AdvanceCamera_reachable a" and z: "advance_camera.move_speed a = 0"
      and d: "advance_camera.position a \<noteq> advance_camera.goal_position a"
  proof -
    from AdvanceCamera_reachable_ok [OF r] d have m: "advance_camera.moving a"
      by (auto simp add: AdvanceCamera_settled_ok_def)
    from AdvanceCamera_updates_stuck [OF m z d, of n]
    have k: "advance_camera.position (AdvanceCamera_updates n a) = advance_camera.position a"
      "advance_camera.goal_position (AdvanceCamera_updates n a) = advance_camera.goal_position a"
      "advance_camera.move_speed (AdvanceCamera_updates n a) = 0"
      "advance_camera.moving (AdvanceCamera_updates n a)"
      by simp_all
    from k d have "advance_camera.position (AdvanceCamera_updates n a)
        \<noteq> advance_camera.goal_position (AdvanceCamera_updates n a)" by simp
    from AdvanceCamera_update_stuck [OF k(4) k(3) this] k d show ?thesis by simp
  qed
  have cam: "camera.position (Camera_updates n c) = camera.position c
        \<and> camera.position (Camera_updates n c) \<noteq> camera.goal_position (Camera_updates n c)"
    if z: "camera.move_speed c = 0" and d: "camera.position c \<noteq> camera.goal_position c"
    using Camera_updates_stuck [OF z, of n] d by simp
  from base adv cam show ?thesis by blast
qed

text \<open>
  C10 at the default cameras after \<^verbatim>\<open>move_to((100, 0), 0)\<close>, for three updates.
\<close>

theorem zero_speed_never_arrives_witness:
  "BaseCamera_reachable (final (BaseCamera_move_to (100, 0) 0 base_default))
   \<and> base_camera.move_speed (final (BaseCamera_move_to (100, 0) 0 base_default)) = 0
   \<and> base_camera.position (final (BaseCamera_move_to (100, 0) 0 base_default))
       \<noteq> base_camera.goal_position (final (BaseCamera_move_to (100, 0) 0 base_default))
   \<and> base_camera.position (BaseCamera_updates 3 (final (BaseCamera_move_to (100, 0) 0 base_default)))
       = (0, 0)
   \<and> base_camera.moving (BaseCamera_updates 3 (final (BaseCamera_move_to (100, 0) 0 base_default)))
   \<and> AdvanceCamera_reachable (final (AdvanceCamera_move_to (100, 0) 0 adv_default))
   \<and> advance_camera.move_speed (final (AdvanceCamera_move_to (100, 0) 0 adv_default)) = 0
   \<and> advance_camera.position (final (AdvanceCamera_move_to (100, 0) 0 adv_default))
       \<noteq> advance_camera.goal_position (final (AdvanceCamera_move_to (100, 0) 0 adv_default))
   \<and> advance_camera.position
         (AdvanceCamera_updates 3 (final (AdvanceCamera_move_to (100, 0) 0 adv_default))) = (0, 0)
   \<and> advance_camera.moving
         (AdvanceCamera_updates 3 (final (AdvanceCamera_move_to (100, 0) 0 adv_default)))
   \<and> camera.move_speed (final (Camera_move_to (100, 0) 0 cam_default)) = 0
   \<and> camera.position (final (Camera_move_to (100, 0) 0 cam_default))
       \<noteq> camera.goal_position (final (Camera_move_to (100, 0) 0 cam_default))
   \<and> camera.position (Camera_updates 3 (final (Camera_move_to (100, 0) 0 cam_default))) = (0, 0)"
proof -
  let ?b = "final (BaseCamera_move_to (100, 0) 0 base_default)"
  let ?a = "final (AdvanceCamera_move_to (100, 0) 0 adv_default)"
  let ?c = "final (Camera_move_to (100, 0) 0 cam_default)"
  have rb: "BaseCamera_reachable ?b"
    by (rule BaseCamera_reachable.move_to [OF base_default_reachable])
       (simp add: BaseCamera_move_to_def)
  have ra: "AdvanceCamera_reachable ?a"
    by (rule AdvanceCamera_reachable.move_to [OF adv_default_reachable])
       (simp add: AdvanceCamera_move_to_def)
  have hb: "base_camera.move_speed ?b = 0" "base_camera.position ?b = (0, 0)"
    "base_camera.goal_position ?b = (100, 0)"
    by (simp_all add: BaseCamera_move_to_def base_default_value)
  have ha: "advance_camera.move_speed ?a = 0" "advance_camera.position ?a = (0, 0)"
    "advance_camera.goal_position ?a = (100, 0)"
    by (simp_all add: AdvanceCamera_move_to_def adv_default_value)
  have hc: "camera.move_speed ?c = 0" "camera.position ?c = (0, 0)"
    "camera.goal_position ?c = (100, 0)"
    by (simp_all add: Camera_move_to_def cam_default_value)
  show ?thesis
    using rb ra hb ha hc
      zero_speed_never_arrives [where b = ?b and a = ?a and c = ?c and n = 3]
    by simp
qed

end
